theory Spec2Isabelle
  imports Complex_Main "HOL-Library.Word"
begin

unbundle bit_operations_syntax

section \<open>Modbus over serial line, master side: the module Modbus\_OSL.c\<close>

text \<open>
  The development embeds \<^verbatim>\<open>Modbus_Project_Master/Master/Modbus_OSL.c\<close>. Every
  static variable of the module is a field of the record \<open>osl\<close>, under the name it has in
  the source. The same record holds what the module does to the hardware and to the other
  modules, since those effects are what an observer sees: the load value and the run bit of
  the two timers, the GPIO data register driving LED1, the characters given to
  \<^verbatim>\<open>UARTCharPut\<close>, and the calls made into the RTU and the application module.
  Functions of the RTU module, of the application module and of the driver library are not
  part of the file: what the module reads from the RTU module and the driver library are
  the fields of the record \<open>env\<close>, and the three application functions called by the poll
  are the fields of the record \<open>app\<close>.
\<close>

subsection \<open>Types\<close>

type_synonym u8 = "8 word"
type_synonym u32 = "32 word"

text \<open>
  Modelled from the spec: \<^verbatim>\<open>enum Modbus_OSL_MainStates\<close> is declared in Modbus\_OSL.h,
  which is not among the sources. The constructors are the seven transaction states of the
  design text (Initial, Idle, Emission, WaitReply, Delay, Error, Processing) under the names
  the file uses for them.
\<close>

datatype Modbus_OSL_MainStates =
    MODBUS_OSL_INITIAL
  | MODBUS_OSL_IDLE
  | MODBUS_OSL_EMISSION
  | MODBUS_OSL_WAITREPLY
  | MODBUS_OSL_DELAY
  | MODBUS_OSL_ERROR
  | MODBUS_OSL_PROCESSING

text \<open>
  Modelled from the spec: \<^verbatim>\<open>enum Modbus_OSL_States\<close>, declared in the same header, holds
  the states of the RTU/ASCII reception diagram. The file names the two idle states and RTU
  emission; the remaining constructors stand for the reception states of the design text.
\<close>

datatype Modbus_OSL_States =
    MODBUS_OSL_RTU_INITIAL
  | MODBUS_OSL_RTU_IDLE
  | MODBUS_OSL_RTU_EMISSION
  | MODBUS_OSL_RTU_RECEPTION
  | MODBUS_OSL_RTU_CONTROLANDWAITING
  | MODBUS_OSL_ASCII_IDLE

text \<open>
  Modelled from the spec: \<^verbatim>\<open>enum Modbus_OSL_Modes\<close> and \<^verbatim>\<open>enum Modbus_OSL_Frames\<close>,
  declared in the same header, with the enumerators the file uses. \<open>Modbus_OSL_Init\<close> stores
  only \<open>MODBUS_OSL_MODE_RTU\<close> or \<open>MODBUS_OSL_MODE_ASCII\<close> in the mode variable; \<open>MDEFAULT\<close>
  stands for every other value, which the \<^verbatim>\<open>default:\<close> branches of the file's switches
  handle.
\<close>

datatype Modbus_OSL_Modes = MDEFAULT | MODBUS_OSL_MODE_RTU | MODBUS_OSL_MODE_ASCII

datatype Modbus_OSL_Frames = MODBUS_OSL_Frame_OK | MODBUS_OSL_Frame_NOK

text \<open>
  Whether plain \<^verbatim>\<open>char\<close> is a signed or an unsigned 8-bit type is fixed by the compiler,
  not by the source (the ARM procedure call standard makes it unsigned; compilers have a
  switch for either). The loop counter of \<open>Modbus_OSL_Send\<close> is a plain \<^verbatim>\<open>char\<close>, so the
  choice is a parameter of the model.
\<close>

datatype char_kind = Signed_char | Unsigned_char

subsection \<open>The state\<close>

record osl =
  Modbus_OSL_Baudrate :: u32
  Modbus_OSL_Timeout_R :: u32
  Modbus_OSL_Timeout_B :: u32
  Modbus_OSL_Mode :: Modbus_OSL_Modes
  Modbus_OSL_Frame :: Modbus_OSL_Frames
  Modbus_OSL_Processing_Flag :: u8
  Modbus_OSL_Forward_Flag :: u8
  Modbus_OSL_Attempt :: u8
  Modbus_OSL_Max_Attempts :: u8
  Modbus_OSL_Expected_Slave :: u8
  Modbus_OSL_Req_ADU :: "u8 list"
  Modbus_OSL_L_Req_ADU :: u8
  Modbus_OSL_MainState :: Modbus_OSL_MainStates
  Modbus_OSL_State :: Modbus_OSL_States
  MainState_history :: "Modbus_OSL_MainStates list"
  TIMER2_load :: u32
  TIMER2_enabled :: bool
  TIMER0_load :: u32
  TIMER0_enabled :: bool
  GPIO_PORTF_DATA_R :: u32
  UART1_sent :: "u8 list"
  UART1_discarded :: nat
  RTU_UART_calls :: nat
  App_No_Response_calls :: nat
  App_Receive_Char_calls :: "(u8 \<times> u8) list"
  App_L_Msg :: u8

text \<open>
  The fields after \<open>Modbus_OSL_State\<close> are not variables of the module:
  \<^item> \<open>MainState_history\<close> lists every value written to \<open>Modbus_OSL_MainState\<close>, oldest
    first (a ghost field, so that "the state is never entered" can be stated);
  \<^item> \<open>TIMER2_load\<close>, \<open>TIMER2_enabled\<close>, \<open>TIMER0_load\<close>, \<open>TIMER0_enabled\<close>: the last
    \<^verbatim>\<open>TimerLoadSet\<close> value and the effect of \<^verbatim>\<open>TimerEnable\<close>/\<^verbatim>\<open>TimerDisable\<close>;
  \<^item> \<open>GPIO_PORTF_DATA_R\<close>: the data register whose bit 0 drives LED1;
  \<^item> \<open>UART1_sent\<close>: the characters given to \<^verbatim>\<open>UARTCharPut\<close>, oldest first;
  \<^item> \<open>UART1_discarded\<close>: the number of characters read with
    \<^verbatim>\<open>UARTCharGetNonBlocking\<close> whose value is thrown away;
  \<^item> \<open>RTU_UART_calls\<close>: the number of calls of \<open>Modbus_OSL_RTU_UART\<close>, the character
    handler of the reception machine;
  \<^item> \<open>App_No_Response_calls\<close>: the number of calls of \<open>Modbus_App_No_Response\<close>;
  \<^item> \<open>App_Receive_Char_calls\<close>: the arguments of the calls of \<open>Modbus_App_Receive_Char\<close>
    (character, index), oldest first; \<open>App_L_Msg\<close>: the last argument of
    \<open>Modbus_App_L_Msg_Set\<close>.
\<close>

subsection \<open>What the module reads from outside\<close>

record env =
  plain_char :: char_kind
  SysCtlClockGet :: u32
  UART_INT_PE :: u32
  Modbus_OSL_RTU_Char_Get :: "u8 \<Rightarrow> u8"
  Modbus_OSL_RTU_L_Msg_Get :: u8
  Modbus_OSL_RTU_Control_CRC :: "osl \<Rightarrow> bool"
  Modbus_OSL_RTU_Mount_ADU :: "u8 list \<Rightarrow> u8 \<Rightarrow> u8 \<Rightarrow> u8 list \<Rightarrow> u8 list"
  Modbus_OSL_RTU_Get_Timeout_35 :: u32
  Modbus_OSL_RTU_UART :: "osl \<Rightarrow> osl"
  memory_around_Req_ADU :: "int \<Rightarrow> u8"
  unassigned_Modbus_OSL_Slave :: u8

text \<open>
  \<^item> \<open>plain_char\<close>: the compiler's choice for plain \<^verbatim>\<open>char\<close>;
  \<^item> \<open>SysCtlClockGet\<close>: the system clock in Hz, an \<^verbatim>\<open>unsigned long\<close>;
  \<^item> \<open>UART_INT_PE\<close>: the driver library's parity-error interrupt bit;
  \<^item> \<open>Modbus_OSL_RTU_Char_Get i\<close>, \<open>Modbus_OSL_RTU_L_Msg_Get\<close>: character \<open>i\<close> and the length
    of the message in the RTU module's reception buffer;
  \<^item> \<open>Modbus_OSL_RTU_Control_CRC s\<close>: the RTU module's verdict on that message, called in
    state \<open>s\<close> (it can read the module through the getters);
  \<^item> \<open>Modbus_OSL_RTU_Mount_ADU pdu Slave L_pdu adu\<close>: the contents of the output vector
    after the RTU module has mounted the frame in it;
  \<^item> \<open>Modbus_OSL_RTU_UART s\<close>: the state after the RTU module's character handler has run
    (it reaches the module through the setters);
  \<^item> \<open>memory_around_Req_ADU k\<close>: the byte an access \<open>Modbus_OSL_Req_ADU[k]\<close> outside the
    vector finds;
  \<^item> \<open>unassigned_Modbus_OSL_Slave\<close>: the value the local \<open>Modbus_OSL_Slave\<close> of
    \<open>Modbus_OSL_Receive_CallBack\<close> has where no branch assigns it.
\<close>

subsection \<open>Accessors\<close>

definition Modbus_OSL_Frame_Set :: "Modbus_OSL_Frames \<Rightarrow> osl \<Rightarrow> osl" where
  "Modbus_OSL_Frame_Set Flag s = s\<lparr>Modbus_OSL_Frame := Flag\<rparr>"

definition Modbus_OSL_State_Set :: "Modbus_OSL_States \<Rightarrow> osl \<Rightarrow> osl" where
  "Modbus_OSL_State_Set State s = s\<lparr>Modbus_OSL_State := State\<rparr>"

text \<open>Every write of \<open>Modbus_OSL_MainState\<close>, through the setter or direct, is logged.\<close>

definition Modbus_OSL_MainState_Set :: "Modbus_OSL_MainStates \<Rightarrow> osl \<Rightarrow> osl" where
  "Modbus_OSL_MainState_Set State s =
     s\<lparr>Modbus_OSL_MainState := State, MainState_history := MainState_history s @ [State]\<rparr>"

subsection \<open>The retry tracker\<close>

text \<open>
  \<^verbatim>\<open>
  unsigned char Modbus_OSL_Resend(void)
  { unsigned char res;
    res = Modbus_OSL_Forward_Flag;
    Modbus_OSL_Forward_Flag = 0;
    return res; }
  \<close>
\<close>

definition Modbus_OSL_Resend :: "osl \<Rightarrow> u8 \<times> osl" where
  "Modbus_OSL_Resend s = (Modbus_OSL_Forward_Flag s, s\<lparr>Modbus_OSL_Forward_Flag := 0\<rparr>)"

text \<open>
  Modelled from the spec: \<open>Modbus_App_No_Response\<close>, of the application module, notifies the
  application layer that the request is abandoned. The state counts the notifications.
\<close>

definition Modbus_App_No_Response :: "osl \<Rightarrow> osl" where
  "Modbus_App_No_Response s = s\<lparr>App_No_Response_calls := Suc (App_No_Response_calls s)\<rparr>"

text \<open>
  \<^verbatim>\<open>
  void Modbus_OSL_Repeat_Request (void)
  { if(Modbus_OSL_Attempt<Modbus_OSL_Max_Attempts)
    { Modbus_OSL_Attempt++;
      Modbus_OSL_Forward_Flag=1; }
    else
    { Modbus_App_No_Response();
      Modbus_OSL_Attempt=1; } }
  \<close>
  Both operands are \<^verbatim>\<open>unsigned char\<close>; the comparison is the unsigned one.
\<close>

definition Modbus_OSL_Repeat_Request :: "osl \<Rightarrow> osl" where
  "Modbus_OSL_Repeat_Request s =
     (if Modbus_OSL_Attempt s < Modbus_OSL_Max_Attempts s
      then s\<lparr>Modbus_OSL_Attempt := Modbus_OSL_Attempt s + 1, Modbus_OSL_Forward_Flag := 1\<rparr>
      else (Modbus_App_No_Response s)\<lparr>Modbus_OSL_Attempt := 1\<rparr>)"

definition Modbus_OSL__Attempt :: "osl \<Rightarrow> osl" where
  "Modbus_OSL__Attempt s = s\<lparr>Modbus_OSL_Attempt := 1\<rparr>"

text \<open>
  One failed attempt as the poll loop handles it: in state \<open>ERROR\<close> the poll calls
  \<open>Modbus_OSL_Repeat_Request\<close>, and the next poll, in \<open>IDLE\<close>, reads and clears the resend
  flag with \<open>Modbus_OSL_Resend\<close>.
\<close>

definition retry_round :: "osl \<Rightarrow> osl" where
  "retry_round s = snd (Modbus_OSL_Resend (Modbus_OSL_Repeat_Request s))"

subsection \<open>The timeout counts\<close>

text \<open>
  \<^verbatim>\<open>
  void Modbus_OSL_Set_Timeout_R (uint32_t Baudrate)
  { switch (Baudrate)
    { case (1200): Modbus_OSL_Timeout_R=SysCtlClockGet()*4; break;
      case (2400): Modbus_OSL_Timeout_R=SysCtlClockGet()*3; break;
      case (4800): Modbus_OSL_Timeout_R=SysCtlClockGet()*2; break;
      case (9600): Modbus_OSL_Timeout_R=SysCtlClockGet();   break;
      default:     Modbus_OSL_Timeout_R=SysCtlClockGet()/2; break; } }
  \<close>
  The arithmetic is that of \<^verbatim>\<open>unsigned long\<close>: products wrap at \<open>2 ^ 32\<close>, the division
  truncates.
\<close>

definition Modbus_OSL_Set_Timeout_R :: "env \<Rightarrow> u32 \<Rightarrow> osl \<Rightarrow> osl" where
  "Modbus_OSL_Set_Timeout_R e Baudrate s =
     s\<lparr>Modbus_OSL_Timeout_R :=
        (if Baudrate = 1200 then SysCtlClockGet e * 4
         else if Baudrate = 2400 then SysCtlClockGet e * 3
         else if Baudrate = 4800 then SysCtlClockGet e * 2
         else if Baudrate = 9600 then SysCtlClockGet e
         else SysCtlClockGet e div 2)\<rparr>"

text \<open>
  \<^verbatim>\<open>
  void Modbus_OSL_Set_Timeout_B(uint32_t Baudrate)
  { switch (Baudrate)
    { case (1200): Modbus_OSL_Timeout_B=SysCtlClockGet()*5/2; break;
      case (2400): Modbus_OSL_Timeout_B=SysCtlClockGet()*3/2; break;
      case (4800): Modbus_OSL_Timeout_B=SysCtlClockGet()*4/5; break;
      case (9600): Modbus_OSL_Timeout_B=SysCtlClockGet()*2/5; break;
      default:     Modbus_OSL_Timeout_B=SysCtlClockGet()/5;   break; } }
  \<close>
\<close>

definition Modbus_OSL_Set_Timeout_B :: "env \<Rightarrow> u32 \<Rightarrow> osl \<Rightarrow> osl" where
  "Modbus_OSL_Set_Timeout_B e Baudrate s =
     s\<lparr>Modbus_OSL_Timeout_B :=
        (if Baudrate = 1200 then SysCtlClockGet e * 5 div 2
         else if Baudrate = 2400 then SysCtlClockGet e * 3 div 2
         else if Baudrate = 4800 then SysCtlClockGet e * 4 div 5
         else if Baudrate = 9600 then SysCtlClockGet e * 2 div 5
         else SysCtlClockGet e div 5)\<rparr>"

subsection \<open>Timer 2: broadcast delay and response timeout\<close>

text \<open>
  \<^verbatim>\<open>
  void Modbus_OSL_BroadCast_Timeout(void)
  { TimerLoadSet(TIMER2_BASE, TIMER_A, Modbus_OSL_Timeout_B);
    TimerEnable(TIMER2_BASE, TIMER_A);
    Modbus_OSL_MainState=MODBUS_OSL_DELAY; }
  \<close>
  and the same with \<open>Modbus_OSL_Timeout_R\<close> and \<open>MODBUS_OSL_WAITREPLY\<close> for
  \<open>Modbus_OSL_Response_Timeout\<close>.
\<close>

definition Modbus_OSL_BroadCast_Timeout :: "osl \<Rightarrow> osl" where
  "Modbus_OSL_BroadCast_Timeout s =
     Modbus_OSL_MainState_Set MODBUS_OSL_DELAY
       (s\<lparr>TIMER2_load := Modbus_OSL_Timeout_B s, TIMER2_enabled := True\<rparr>)"

definition Modbus_OSL_Response_Timeout :: "osl \<Rightarrow> osl" where
  "Modbus_OSL_Response_Timeout s =
     Modbus_OSL_MainState_Set MODBUS_OSL_WAITREPLY
       (s\<lparr>TIMER2_load := Modbus_OSL_Timeout_R s, TIMER2_enabled := True\<rparr>)"

subsection \<open>The fatal error trap\<close>

text \<open>
  \<^verbatim>\<open>
  void Modbus_Fatal_Error(unsigned char Error)
  { while(1) { } }
  \<close>
  The loop has no exit and an empty body, and the parameter is not used. The model counts
  iterations: the first argument is the number of iterations observed, and the result after
  any number of them is \<open>Inl (Spinning Error s)\<close>, the call still in its loop, holding its
  argument, with the state \<open>s\<close> it was entered in. A function that calls the trap returns
  \<open>Inr\<close> of the new state where it returns.
\<close>

datatype spinning = Spinning u8 osl

fun Modbus_Fatal_Error :: "nat \<Rightarrow> u8 \<Rightarrow> osl \<Rightarrow> spinning + osl" where
  "Modbus_Fatal_Error 0 Error s = Inl (Spinning Error s)"
| "Modbus_Fatal_Error (Suc n) Error s = Modbus_Fatal_Error n Error s"

text \<open>
  \<^verbatim>\<open>
  void Modbus_OSL_Timeouts(void)
  { switch(Modbus_OSL_MainState_Get())
    { case MODBUS_OSL_WAITREPLY: Modbus_OSL_MainState_Set(MODBUS_OSL_ERROR); break;
      case MODBUS_OSL_DELAY:     Modbus_OSL_MainState_Set(MODBUS_OSL_IDLE);  break;
      default:                   Modbus_Fatal_Error(110); } }
  \<close>
\<close>

definition Modbus_OSL_Timeouts :: "nat \<Rightarrow> osl \<Rightarrow> spinning + osl" where
  "Modbus_OSL_Timeouts n s =
     (case Modbus_OSL_MainState s of
        MODBUS_OSL_WAITREPLY \<Rightarrow> Inr (Modbus_OSL_MainState_Set MODBUS_OSL_ERROR s)
      | MODBUS_OSL_DELAY \<Rightarrow> Inr (Modbus_OSL_MainState_Set MODBUS_OSL_IDLE s)
      | _ \<Rightarrow> Modbus_Fatal_Error n 110 s)"

text \<open>
  What an operator can observe from outside the processor: the serial line, LED1, the
  timers and the notifications to the application.
\<close>

definition operator_channels ::
  "osl \<Rightarrow> u8 list \<times> u32 \<times> (u32 \<times> bool) \<times> (u32 \<times> bool) \<times> nat \<times> (u8 \<times> u8) list \<times> u8" where
  "operator_channels s =
     (UART1_sent s, GPIO_PORTF_DATA_R s, (TIMER2_load s, TIMER2_enabled s),
      (TIMER0_load s, TIMER0_enabled s), App_No_Response_calls s,
      App_Receive_Char_calls s, App_L_Msg s)"

text \<open>The channels as they stand when a handler has returned or is spinning in the trap.\<close>

definition halted_channels ::
  "spinning + osl \<Rightarrow> u8 list \<times> u32 \<times> (u32 \<times> bool) \<times> (u32 \<times> bool) \<times> nat \<times> (u8 \<times> u8) list \<times> u8" where
  "halted_channels r = (case r of Inl (Spinning Error s) \<Rightarrow> operator_channels s
                                | Inr s \<Rightarrow> operator_channels s)"

subsection \<open>The character interrupt\<close>

text \<open>
  The driver library's \<^verbatim>\<open>UARTCharGetNonBlocking\<close> takes one character out of the UART;
  the handler throws its result away. The call of the reception machine's character handler
  is counted after the handler has run.
\<close>

definition UARTCharGetNonBlocking :: "osl \<Rightarrow> osl" where
  "UARTCharGetNonBlocking s = s\<lparr>UART1_discarded := Suc (UART1_discarded s)\<rparr>"

definition call_Modbus_OSL_RTU_UART :: "env \<Rightarrow> osl \<Rightarrow> osl" where
  "call_Modbus_OSL_RTU_UART e s =
     (Modbus_OSL_RTU_UART e s)\<lparr>RTU_UART_calls := Suc (RTU_UART_calls s)\<rparr>"

text \<open>
  \<^verbatim>\<open>
  void UART1IntHandler(void)
  { unsigned long ulStatus;
    GPIO_PORTF_DATA_R |= 0x01;
    ulStatus = UARTIntStatus(UART1_BASE, true);
    UARTIntClear(UART1_BASE, ulStatus);
    if(Modbus_OSL_MainState_Get()==MODBUS_OSL_WAITREPLY
       || Modbus_OSL_MainState_Get()==MODBUS_OSL_ERROR)
    { if (UART_INT_PE==ulStatus)
      { Modbus_OSL_Frame_Set(MODBUS_OSL_Frame_NOK); }
      else
      { switch (Modbus_OSL_Mode)
        { case MODBUS_OSL_MODE_RTU:   Modbus_OSL_RTU_UART(); break;
          case MODBUS_OSL_MODE_ASCII: break;
          default:                    Modbus_Fatal_Error(100); } } }
    else
    { UARTCharGetNonBlocking(UART1_BASE); }
    GPIO_PORTF_DATA_R &= ~(0x01); }
  \<close>
  The interrupt status is an argument of the model.
\<close>

definition UART1IntHandler :: "nat \<Rightarrow> env \<Rightarrow> u32 \<Rightarrow> osl \<Rightarrow> spinning + osl" where
  "UART1IntHandler n e ulStatus s =
     (let led_off = (\<lambda>t. t\<lparr>GPIO_PORTF_DATA_R := GPIO_PORTF_DATA_R t AND NOT 1\<rparr>);
          s1 = s\<lparr>GPIO_PORTF_DATA_R := GPIO_PORTF_DATA_R s OR 1\<rparr>
      in if Modbus_OSL_MainState s1 = MODBUS_OSL_WAITREPLY
            \<or> Modbus_OSL_MainState s1 = MODBUS_OSL_ERROR
         then (if UART_INT_PE e = ulStatus
               then Inr (led_off (Modbus_OSL_Frame_Set MODBUS_OSL_Frame_NOK s1))
               else (case Modbus_OSL_Mode s1 of
                       MODBUS_OSL_MODE_RTU \<Rightarrow> Inr (led_off (call_Modbus_OSL_RTU_UART e s1))
                     | MODBUS_OSL_MODE_ASCII \<Rightarrow> Inr (led_off s1)
                     | MDEFAULT \<Rightarrow> Modbus_Fatal_Error n 100 s1))
         else Inr (led_off (UARTCharGetNonBlocking s1)))"

subsection \<open>Incoming messages\<close>

text \<open>
  \<^verbatim>\<open>
  void Modbus_OSL_Reception_Complete(void)
  { if(Modbus_OSL_MainState_Get()==MODBUS_OSL_WAITREPLY)
        Modbus_OSL_Processing_Flag = 1; }
  \<close>
\<close>

definition Modbus_OSL_Reception_Complete :: "osl \<Rightarrow> osl" where
  "Modbus_OSL_Reception_Complete s =
     (if Modbus_OSL_MainState s = MODBUS_OSL_WAITREPLY
      then s\<lparr>Modbus_OSL_Processing_Flag := 1\<rparr> else s)"

text \<open>
  \<^verbatim>\<open>
  static unsigned char Modbus_OSL_Processing_Msg(void)
  { unsigned char res;
    IntMasterDisable();
    res = Modbus_OSL_Processing_Flag;
    Modbus_OSL_Processing_Flag = 0;
    IntMasterEnable();
    return res; }
  \<close>
\<close>

definition Modbus_OSL_Processing_Msg :: "osl \<Rightarrow> u8 \<times> osl" where
  "Modbus_OSL_Processing_Msg s =
     (Modbus_OSL_Processing_Flag s, s\<lparr>Modbus_OSL_Processing_Flag := 0\<rparr>)"

text \<open>
  Modelled from the spec: \<open>Modbus_App_Receive_Char\<close> and \<open>Modbus_App_L_Msg_Set\<close>, of the
  application module, take the bytes of the PDU and its length. The state records the
  arguments of the calls.
\<close>

definition Modbus_App_Receive_Char :: "u8 \<Rightarrow> u8 \<Rightarrow> osl \<Rightarrow> osl" where
  "Modbus_App_Receive_Char c i s =
     s\<lparr>App_Receive_Char_calls := App_Receive_Char_calls s @ [(c, i)]\<rparr>"

definition Modbus_App_L_Msg_Set :: "u8 \<Rightarrow> osl \<Rightarrow> osl" where
  "Modbus_App_L_Msg_Set L s = s\<lparr>App_L_Msg := L\<rparr>"

text \<open>
  \<^verbatim>\<open>
  static void Modbus_OSL_RTU_to_App (void)
  { unsigned char i;
    for(i=1;i<Modbus_OSL_RTU_L_Msg_Get();i++)
        Modbus_App_Receive_Char (Modbus_OSL_RTU_Char_Get(i),i-1);
    Modbus_App_L_Msg_Set(Modbus_OSL_RTU_L_Msg_Get()-1); }
  \<close>
\<close>

function Modbus_OSL_RTU_to_App_loop :: "env \<Rightarrow> u8 \<Rightarrow> osl \<Rightarrow> osl" where
  "Modbus_OSL_RTU_to_App_loop e i s =
     (if i < Modbus_OSL_RTU_L_Msg_Get e
      then Modbus_OSL_RTU_to_App_loop e (i + 1)
             (Modbus_App_Receive_Char (Modbus_OSL_RTU_Char_Get e i) (i - 1) s)
      else s)"
  by pat_completeness auto

termination Modbus_OSL_RTU_to_App_loop
proof (relation "measure (\<lambda>(e, i, s). unat (Modbus_OSL_RTU_L_Msg_Get e) - unat i)")
  show "wf (measure (\<lambda>(e, i, s). unat (Modbus_OSL_RTU_L_Msg_Get e) - unat i))" by simp
next
  fix e :: "env" and i :: u8 and s :: osl
  assume lt: "i < Modbus_OSL_RTU_L_Msg_Get e"
  then have below: "unat i < unat (Modbus_OSL_RTU_L_Msg_Get e)" by (simp add: word_less_nat_alt)
  have "unat (Modbus_OSL_RTU_L_Msg_Get e) < 2 ^ LENGTH(8)" by (rule unsigned_less)
  with below have "unat i + 1 < 256" by simp
  then have "unat (i + 1) = Suc (unat i)" by (simp add: unat_word_ariths)
  with below show "((e, i + 1, Modbus_App_Receive_Char (Modbus_OSL_RTU_Char_Get e i) (i - 1) s), (e, i, s))
      \<in> measure (\<lambda>(e, i, s). unat (Modbus_OSL_RTU_L_Msg_Get e) - unat i)"
    by simp
qed

declare Modbus_OSL_RTU_to_App_loop.simps [simp del]

definition Modbus_OSL_RTU_to_App :: "env \<Rightarrow> osl \<Rightarrow> osl" where
  "Modbus_OSL_RTU_to_App e s =
     Modbus_App_L_Msg_Set (Modbus_OSL_RTU_L_Msg_Get e - 1) (Modbus_OSL_RTU_to_App_loop e 1 s)"

definition TimerDisable_TIMER2 :: "osl \<Rightarrow> osl" where
  "TimerDisable_TIMER2 s = s\<lparr>TIMER2_enabled := False\<rparr>"

text \<open>
  \<^verbatim>\<open>
  unsigned char Modbus_OSL_Receive_CallBack(void)
  { unsigned char Modbus_OSL_Slave;
    if (Modbus_OSL_Processing_Msg())
    { switch (Modbus_OSL_Mode)
      { case MODBUS_OSL_MODE_RTU:   Modbus_OSL_Slave=Modbus_OSL_RTU_Char_Get(0); break;
        case MODBUS_OSL_MODE_ASCII: break; }
      if(Modbus_OSL_Slave==Modbus_OSL_Expected_Slave)
      { TimerDisable(TIMER2_BASE, TIMER_A);
        Modbus_OSL_MainState_Set(MODBUS_OSL_PROCESSING);
        switch (Modbus_OSL_Mode)
        { case MODBUS_OSL_MODE_RTU:
            if(Modbus_OSL_RTU_Control_CRC())
            { Modbus_OSL_RTU_to_App();
              return 1; }
            else
            { Modbus_OSL_Frame_Set(MODBUS_OSL_Frame_OK);
              Modbus_OSL_MainState_Set(MODBUS_OSL_ERROR); }
            break;
          case MODBUS_OSL_MODE_ASCII: break; } } }
    return 0; }
  \<close>
\<close>

definition Modbus_OSL_Receive_CallBack :: "env \<Rightarrow> osl \<Rightarrow> u8 \<times> osl" where
  "Modbus_OSL_Receive_CallBack e s =
     (case Modbus_OSL_Processing_Msg s of (res, s1) \<Rightarrow>
        if res \<noteq> 0
        then (let Modbus_OSL_Slave =
                    (case Modbus_OSL_Mode s1 of
                       MODBUS_OSL_MODE_RTU \<Rightarrow> Modbus_OSL_RTU_Char_Get e 0
                     | _ \<Rightarrow> unassigned_Modbus_OSL_Slave e)
              in if Modbus_OSL_Slave = Modbus_OSL_Expected_Slave s1
                 then (let s2 = Modbus_OSL_MainState_Set MODBUS_OSL_PROCESSING
                                  (TimerDisable_TIMER2 s1)
                       in case Modbus_OSL_Mode s2 of
                            MODBUS_OSL_MODE_RTU \<Rightarrow>
                              if Modbus_OSL_RTU_Control_CRC e s2
                              then (1, Modbus_OSL_RTU_to_App e s2)
                              else (0, Modbus_OSL_MainState_Set MODBUS_OSL_ERROR
                                         (Modbus_OSL_Frame_Set MODBUS_OSL_Frame_OK s2))
                          | _ \<Rightarrow> (0, s2))
                 else (0, s1))
        else (0, s1))"

subsection \<open>Outgoing messages\<close>

text \<open>
  The value of a plain \<^verbatim>\<open>char\<close> in a comparison or an index, after the integer
  promotion: the two's complement reading where the type is signed, the unsigned one
  otherwise.
\<close>

definition char_int :: "char_kind \<Rightarrow> u8 \<Rightarrow> int" where
  "char_int k c = (case k of Signed_char \<Rightarrow> sint c | Unsigned_char \<Rightarrow> uint c)"

definition UARTCharPut :: "u8 \<Rightarrow> osl \<Rightarrow> osl" where
  "UARTCharPut c s = s\<lparr>UART1_sent := UART1_sent s @ [c]\<rparr>"

text \<open>
  \<^verbatim>\<open>
  static void Modbus_OSL_Send (unsigned char *mb_req_adu, unsigned char L_adu)
  { char i;
    GPIO_PORTF_DATA_R |= 0x01;
    for (i=0;i<L_adu;i++)
    { UARTCharPut(UART1_BASE,mb_req_adu[i]); }
    GPIO_PORTF_DATA_R &= ~(0x01); }
  \<close>
  The pointer is the function \<open>mb_req_adu\<close> from offsets to bytes. The counter is kept as its
  eight bits; \<open>i++\<close> on a signed \<^verbatim>\<open>char\<close> holding 127 stores the converted 128, which
  is \<open>-128\<close> on two's complement machines. The loop may run forever, so it is a partial
  function: \<open>None\<close> is the call that never returns.
\<close>

partial_function (option) Modbus_OSL_Send_loop ::
  "char_kind \<Rightarrow> (int \<Rightarrow> u8) \<Rightarrow> u8 \<Rightarrow> u8 \<Rightarrow> osl \<Rightarrow> osl option" where
  "Modbus_OSL_Send_loop k mb_req_adu L_adu i s =
     (if char_int k i < uint L_adu
      then Modbus_OSL_Send_loop k mb_req_adu L_adu (i + 1)
             (UARTCharPut (mb_req_adu (char_int k i)) s)
      else Some s)"

declare Modbus_OSL_Send_loop.simps [code]

definition Modbus_OSL_Send :: "char_kind \<Rightarrow> (int \<Rightarrow> u8) \<Rightarrow> u8 \<Rightarrow> osl \<Rightarrow> osl option" where
  "Modbus_OSL_Send k mb_req_adu L_adu s =
     (case Modbus_OSL_Send_loop k mb_req_adu L_adu 0
             (s\<lparr>GPIO_PORTF_DATA_R := GPIO_PORTF_DATA_R s OR 1\<rparr>) of
        None \<Rightarrow> None
      | Some s' \<Rightarrow> Some (s'\<lparr>GPIO_PORTF_DATA_R := GPIO_PORTF_DATA_R s' AND NOT 1\<rparr>))"

text \<open>The vector \<open>Modbus_OSL_Req_ADU\<close> seen through a pointer to its first element.\<close>

definition Req_ADU_pointer :: "env \<Rightarrow> osl \<Rightarrow> int \<Rightarrow> u8" where
  "Req_ADU_pointer e s k =
     (if 0 \<le> k \<and> k < int (length (Modbus_OSL_Req_ADU s))
      then Modbus_OSL_Req_ADU s ! nat k else memory_around_Req_ADU e k)"

text \<open>
  \<^verbatim>\<open>
  void Modbus_OSL_Output (unsigned char *mb_req_pdu, unsigned char Slave, unsigned char L_pdu)
  { switch (Modbus_OSL_Mode)
    { case MODBUS_OSL_MODE_RTU:
        Modbus_OSL_RTU_Mount_ADU (mb_req_pdu,Slave,L_pdu,Modbus_OSL_Req_ADU);
        Modbus_OSL_L_Req_ADU=L_pdu+3;
        Modbus_OSL_State_Set(MODBUS_OSL_RTU_EMISSION);
        break;
      case MODBUS_OSL_MODE_ASCII: break; }
    Modbus_OSL_Expected_Slave=Slave;
    Modbus_OSL_Send(Modbus_OSL_Req_ADU, Modbus_OSL_L_Req_ADU);
    if (Modbus_OSL_Mode==MODBUS_OSL_MODE_RTU)
    { TimerLoadSet(TIMER0_BASE, TIMER_A, Modbus_OSL_RTU_Get_Timeout_35());
      TimerEnable(TIMER0_BASE, TIMER_A); }
    if(Modbus_OSL_Expected_Slave==0)
    { Modbus_OSL_BroadCast_Timeout(); }
    else
    { Modbus_OSL_Response_Timeout(); } }
  \<close>
  \<open>Modbus_OSL_Output_mount\<close> is the first \<^verbatim>\<open>switch\<close> of the body, the state in which
  \<open>Modbus_OSL_Send\<close> is entered apart from the expected slave; \<open>Modbus_OSL_Output\<close> is the
  whole body.
\<close>

definition Modbus_OSL_Output_mount :: "env \<Rightarrow> u8 list \<Rightarrow> u8 \<Rightarrow> u8 \<Rightarrow> osl \<Rightarrow> osl" where
  "Modbus_OSL_Output_mount e mb_req_pdu Slave L_pdu s =
     (case Modbus_OSL_Mode s of
        MODBUS_OSL_MODE_RTU \<Rightarrow>
          Modbus_OSL_State_Set MODBUS_OSL_RTU_EMISSION
            (s\<lparr>Modbus_OSL_Req_ADU :=
                 Modbus_OSL_RTU_Mount_ADU e mb_req_pdu Slave L_pdu (Modbus_OSL_Req_ADU s),
               Modbus_OSL_L_Req_ADU := L_pdu + 3\<rparr>)
      | _ \<Rightarrow> s)"

definition Modbus_OSL_Output :: "env \<Rightarrow> u8 list \<Rightarrow> u8 \<Rightarrow> u8 \<Rightarrow> osl \<Rightarrow> osl option" where
  "Modbus_OSL_Output e mb_req_pdu Slave L_pdu s =
     (let s1 = (Modbus_OSL_Output_mount e mb_req_pdu Slave L_pdu s)
                 \<lparr>Modbus_OSL_Expected_Slave := Slave\<rparr>
      in case Modbus_OSL_Send (plain_char e) (Req_ADU_pointer e s1) (Modbus_OSL_L_Req_ADU s1) s1 of
           None \<Rightarrow> None
         | Some s2 \<Rightarrow>
             (let s3 = (if Modbus_OSL_Mode s2 = MODBUS_OSL_MODE_RTU
                        then s2\<lparr>TIMER0_load := Modbus_OSL_RTU_Get_Timeout_35 e,
                                TIMER0_enabled := True\<rparr>
                        else s2)
              in Some (if Modbus_OSL_Expected_Slave s3 = 0
                       then Modbus_OSL_BroadCast_Timeout s3
                       else Modbus_OSL_Response_Timeout s3)))"

subsection \<open>The poll\<close>

text \<open>
  The three functions of the application module that the poll calls. Each may call back
  into this module (\<open>Modbus_App_Send\<close> and \<open>Modbus_App_FIFOSend\<close> call
  \<open>Modbus_OSL_Output\<close>), so each maps the state to a new one, or to \<open>None\<close> where it does
  not return; \<open>Modbus_App_FIFOSend\<close> also returns its result.
\<close>

record app =
  Modbus_App_Send :: "osl \<Rightarrow> osl option"
  Modbus_App_FIFOSend :: "osl \<Rightarrow> (u8 \<times> osl) option"
  Modbus_App_Manage_CallBack :: "osl \<Rightarrow> osl option"

text \<open>
  \<^verbatim>\<open>
  unsigned char Modbus_OSL_Serial_Comm (void)
  { switch(Modbus_OSL_MainState_Get())
    { case MODBUS_OSL_IDLE:
          if(Modbus_OSL_Resend())
          { Modbus_App_Send(); }
          else
          { if(Modbus_App_FIFOSend())
                return 0; }
          break;
      case MODBUS_OSL_WAITREPLY:
          if (Modbus_OSL_Receive_CallBack())
            Modbus_App_Manage_CallBack();
          break;
      case MODBUS_OSL_ERROR:
          if (Modbus_OSL_State_Get()==MODBUS_OSL_RTU_IDLE ||
              Modbus_OSL_State_Get()==MODBUS_OSL_ASCII_IDLE)
          { Modbus_OSL_Repeat_Request ();
            Modbus_OSL_MainState_Set(MODBUS_OSL_IDLE); }
          break;
      default: break; }
    return 1; }
  \<close>
\<close>

definition Modbus_OSL_Serial_Comm :: "env \<Rightarrow> app \<Rightarrow> osl \<Rightarrow> (u8 \<times> osl) option" where
  "Modbus_OSL_Serial_Comm e a s =
     (case Modbus_OSL_MainState s of
        MODBUS_OSL_IDLE \<Rightarrow>
          (case Modbus_OSL_Resend s of (res, s1) \<Rightarrow>
             if res \<noteq> 0
             then (case Modbus_App_Send a s1 of None \<Rightarrow> None | Some s2 \<Rightarrow> Some (1, s2))
             else (case Modbus_App_FIFOSend a s1 of
                     None \<Rightarrow> None
                   | Some (r, s2) \<Rightarrow> Some (if r \<noteq> 0 then 0 else 1, s2)))
      | MODBUS_OSL_WAITREPLY \<Rightarrow>
          (case Modbus_OSL_Receive_CallBack e s of (res, s1) \<Rightarrow>
             if res \<noteq> 0
             then (case Modbus_App_Manage_CallBack a s1 of
                     None \<Rightarrow> None | Some s2 \<Rightarrow> Some (1, s2))
             else Some (1, s1))
      | MODBUS_OSL_ERROR \<Rightarrow>
          (if Modbus_OSL_State s = MODBUS_OSL_RTU_IDLE
              \<or> Modbus_OSL_State s = MODBUS_OSL_ASCII_IDLE
           then Some (1, Modbus_OSL_MainState_Set MODBUS_OSL_IDLE (Modbus_OSL_Repeat_Request s))
           else Some (1, s))
      | _ \<Rightarrow> Some (1, s))"

subsection \<open>A concrete configuration\<close>

text \<open>
  A state and an environment on which the theorems below are evaluated: the master
  configured for 9600 baud, RTU mode and three attempts on an 8 MHz clock, idle, with
  nothing sent so far. The reception buffer of the environment holds a five-character
  message from slave 5; the frame mounter writes the address, the PDU and the two bytes
  \<open>0x85\<close>, \<open>0x8E\<close> in the place of the CRC, and the CRC check passes when its argument
  says so and no parity fault has marked the frame.
\<close>

definition idle_state :: osl where
  "idle_state =
     \<lparr>Modbus_OSL_Baudrate = 9600, Modbus_OSL_Timeout_R = 8000000,
      Modbus_OSL_Timeout_B = 3200000, Modbus_OSL_Mode = MODBUS_OSL_MODE_RTU,
      Modbus_OSL_Frame = MODBUS_OSL_Frame_OK, Modbus_OSL_Processing_Flag = 0,
      Modbus_OSL_Forward_Flag = 0, Modbus_OSL_Attempt = 1, Modbus_OSL_Max_Attempts = 3,
      Modbus_OSL_Expected_Slave = 0, Modbus_OSL_Req_ADU = replicate 256 0,
      Modbus_OSL_L_Req_ADU = 0, Modbus_OSL_MainState = MODBUS_OSL_IDLE,
      Modbus_OSL_State = MODBUS_OSL_RTU_IDLE, MainState_history = [],
      TIMER2_load = 0, TIMER2_enabled = False, TIMER0_load = 0, TIMER0_enabled = False,
      GPIO_PORTF_DATA_R = 0, UART1_sent = [], UART1_discarded = 0, RTU_UART_calls = 0,
      App_No_Response_calls = 0, App_Receive_Char_calls = [], App_L_Msg = 0\<rparr>"

definition bench_env :: "char_kind \<Rightarrow> bool \<Rightarrow> env" where
  "bench_env k crc_ok =
     \<lparr>plain_char = k, SysCtlClockGet = 8000000, UART_INT_PE = 0x100,
      Modbus_OSL_RTU_Char_Get = (\<lambda>i. if i = 0 then 5 else if i = 1 then 3 else i),
      Modbus_OSL_RTU_L_Msg_Get = 5,
      Modbus_OSL_RTU_Control_CRC = (\<lambda>s. crc_ok \<and> Modbus_OSL_Frame s = MODBUS_OSL_Frame_OK),
      Modbus_OSL_RTU_Mount_ADU =
        (\<lambda>pdu Slave L_pdu adu.
           (Slave # take (unat L_pdu) pdu @ [0x85, 0x8E]) @ drop (unat L_pdu + 3) adu),
      Modbus_OSL_RTU_Get_Timeout_35 = 32083,
      Modbus_OSL_RTU_UART = Modbus_OSL_State_Set MODBUS_OSL_RTU_RECEPTION,
      memory_around_Req_ADU = (\<lambda>k. 0),
      unassigned_Modbus_OSL_Slave = 0\<rparr>"

definition bench_app :: app where
  "bench_app =
     \<lparr>Modbus_App_Send = (\<lambda>s. Some s),
      Modbus_App_FIFOSend = (\<lambda>s. Some (1, s)),
      Modbus_App_Manage_CallBack =
        (\<lambda>s. Some (Modbus_OSL_MainState_Set MODBUS_OSL_IDLE (Modbus_OSL__Attempt s)))\<rparr>"

text \<open>
  The same master awaiting the reply of slave 5: the response timer runs and a complete
  frame has been signalled.
\<close>

definition awaiting_state :: osl where
  "awaiting_state =
     idle_state\<lparr>Modbus_OSL_MainState := MODBUS_OSL_WAITREPLY, Modbus_OSL_Expected_Slave := 5,
                Modbus_OSL_Processing_Flag := 1, TIMER2_load := 8000000, TIMER2_enabled := True,
                MainState_history := [MODBUS_OSL_WAITREPLY]\<rparr>"

section \<open>Properties\<close>

subsection \<open>Auxiliary facts\<close>

lemma unat_succ_below: "(a::u8) < b \<Longrightarrow> unat (a + 1) = Suc (unat a)"
proof -
  assume "a < b"
  then have "unat a < unat b" by (simp add: word_less_nat_alt)
  moreover have "unat b < 2 ^ LENGTH(8)" by (rule unsigned_less)
  ultimately have "unat a + 1 < 256" by simp
  then show ?thesis by (simp add: unat_word_ariths)
qed

lemma Fatal_Error_spins: "Modbus_Fatal_Error n Error s = Inl (Spinning Error s)"
  by (induction n) simp_all

lemma retry_round_Max:
  "Modbus_OSL_Max_Attempts (retry_round s) = Modbus_OSL_Max_Attempts s"
  by (simp add: retry_round_def Modbus_OSL_Resend_def Modbus_OSL_Repeat_Request_def
      Modbus_App_No_Response_def)

lemma retry_round_below:
  "Modbus_OSL_Attempt t < Modbus_OSL_Max_Attempts t \<Longrightarrow>
     Modbus_OSL_Attempt (retry_round t) = Modbus_OSL_Attempt t + 1 \<and>
     App_No_Response_calls (retry_round t) = App_No_Response_calls t"
  by (simp add: retry_round_def Modbus_OSL_Resend_def Modbus_OSL_Repeat_Request_def)

lemma retry_round_last:
  "\<not> Modbus_OSL_Attempt t < Modbus_OSL_Max_Attempts t \<Longrightarrow>
     Modbus_OSL_Attempt (retry_round t) = 1 \<and>
     App_No_Response_calls (retry_round t) = Suc (App_No_Response_calls t)"
  by (simp add: retry_round_def Modbus_OSL_Resend_def Modbus_OSL_Repeat_Request_def
      Modbus_App_No_Response_def)

lemma retry_rounds_Max:
  "Modbus_OSL_Max_Attempts ((retry_round ^^ k) s) = Modbus_OSL_Max_Attempts s"
  by (induction k) (simp_all add: retry_round_Max)

lemma retry_rounds_below:
  "Modbus_OSL_Attempt s = 1 \<Longrightarrow> k < unat (Modbus_OSL_Max_Attempts s) \<Longrightarrow>
     unat (Modbus_OSL_Attempt ((retry_round ^^ k) s)) = Suc k \<and>
     App_No_Response_calls ((retry_round ^^ k) s) = App_No_Response_calls s"
proof (induction k)
  case 0
  then show ?case by simp
next
  case (Suc k)
  let ?t = "(retry_round ^^ k) s"
  from Suc have ih: "unat (Modbus_OSL_Attempt ?t) = Suc k"
    "App_No_Response_calls ?t = App_No_Response_calls s" by simp_all
  have lt: "Modbus_OSL_Attempt ?t < Modbus_OSL_Max_Attempts ?t"
    using Suc.prems(2) ih(1) by (simp add: retry_rounds_Max word_less_nat_alt)
  have "unat (Modbus_OSL_Attempt ?t + 1) = Suc (unat (Modbus_OSL_Attempt ?t))"
    using lt by (rule unat_succ_below)
  with retry_round_below [OF lt] ih show ?case by simp
qed

lemma retry_rounds_exhaust:
  assumes "Modbus_OSL_Attempt s = 1" and "0 < Modbus_OSL_Max_Attempts s"
  shows "Modbus_OSL_Attempt ((retry_round ^^ unat (Modbus_OSL_Max_Attempts s)) s) = 1 \<and>
     App_No_Response_calls ((retry_round ^^ unat (Modbus_OSL_Max_Attempts s)) s) =
       Suc (App_No_Response_calls s)"
proof -
  from assms(2) have "0 < unat (Modbus_OSL_Max_Attempts s)" by (simp add: word_less_nat_alt)
  then obtain k where k: "unat (Modbus_OSL_Max_Attempts s) = Suc k"
    by (cases "unat (Modbus_OSL_Max_Attempts s)") auto
  let ?t = "(retry_round ^^ k) s"
  have b: "unat (Modbus_OSL_Attempt ?t) = Suc k"
    "App_No_Response_calls ?t = App_No_Response_calls s"
    using retry_rounds_below [OF assms(1), of k] k by simp_all
  have "\<not> Modbus_OSL_Attempt ?t < Modbus_OSL_Max_Attempts ?t"
    using b(1) k by (simp add: retry_rounds_Max word_less_nat_alt)
  from retry_round_last [OF this] b k show ?thesis by simp
qed

text \<open>With the processing flag down the consumer returns 0 and changes nothing.\<close>

lemma Receive_CallBack_no_flag:
  "Modbus_OSL_Processing_Flag s = 0 \<Longrightarrow> Modbus_OSL_Receive_CallBack e s = (0, s)"
  by (simp add: Modbus_OSL_Receive_CallBack_def Modbus_OSL_Processing_Msg_def)

subsection \<open>The retry tracker\<close>

text \<open>
  Claim C1, as amended. Every call of \<open>Modbus_OSL_Repeat_Request\<close> either finds the attempt
  counter below the maximum, adds exactly one to it (there is no wrap-around) and sets the
  resend flag, which \<open>Modbus_OSL_Resend\<close> then returns once and clears; or it notifies the
  application of the missing response and sets the counter to 1. For a request that starts
  with the counter at 1 and a maximum of at least 1, the first \<open>k\<close> failures, for every \<open>k\<close>
  below the maximum, send no notification and leave the counter at \<open>k + 1\<close>; after exactly
  as many failures as the maximum, the notification has been sent exactly once and the
  counter is 1 again. The poll makes these calls: in state \<open>ERROR\<close>, once the reception
  machine is idle, it calls \<open>Modbus_OSL_Repeat_Request\<close> and writes \<open>IDLE\<close>; in \<open>IDLE\<close> with
  the flag set it clears the flag and has the application send the request again.
\<close>

theorem retry_tracker_exhaustion:
  "Modbus_OSL_Repeat_Request s =
     (if Modbus_OSL_Attempt s < Modbus_OSL_Max_Attempts s
      then s\<lparr>Modbus_OSL_Attempt := Modbus_OSL_Attempt s + 1, Modbus_OSL_Forward_Flag := 1\<rparr>
      else s\<lparr>App_No_Response_calls := Suc (App_No_Response_calls s), Modbus_OSL_Attempt := 1\<rparr>)
   \<and> (Modbus_OSL_Attempt s < Modbus_OSL_Max_Attempts s \<longrightarrow>
        unat (Modbus_OSL_Attempt (Modbus_OSL_Repeat_Request s)) = unat (Modbus_OSL_Attempt s) + 1
      \<and> fst (Modbus_OSL_Resend (Modbus_OSL_Repeat_Request s)) = 1
      \<and> fst (Modbus_OSL_Resend (snd (Modbus_OSL_Resend (Modbus_OSL_Repeat_Request s)))) = 0)
   \<and> (Modbus_OSL_Attempt s = 1 \<and> 0 < Modbus_OSL_Max_Attempts s \<longrightarrow>
        (\<forall>k < unat (Modbus_OSL_Max_Attempts s).
           App_No_Response_calls ((retry_round ^^ k) s) = App_No_Response_calls s \<and>
           unat (Modbus_OSL_Attempt ((retry_round ^^ k) s)) = Suc k)
      \<and> App_No_Response_calls ((retry_round ^^ unat (Modbus_OSL_Max_Attempts s)) s) =
          Suc (App_No_Response_calls s)
      \<and> Modbus_OSL_Attempt ((retry_round ^^ unat (Modbus_OSL_Max_Attempts s)) s) = 1)
   \<and> (Modbus_OSL_MainState s = MODBUS_OSL_ERROR
        \<and> (Modbus_OSL_State s = MODBUS_OSL_RTU_IDLE \<or> Modbus_OSL_State s = MODBUS_OSL_ASCII_IDLE) \<longrightarrow>
        Modbus_OSL_Serial_Comm e a s =
          Some (1, Modbus_OSL_MainState_Set MODBUS_OSL_IDLE (Modbus_OSL_Repeat_Request s)))
   \<and> (Modbus_OSL_MainState s = MODBUS_OSL_IDLE \<and> Modbus_OSL_Forward_Flag s \<noteq> 0 \<longrightarrow>
        Modbus_OSL_Serial_Comm e a s =
          (case Modbus_App_Send a (snd (Modbus_OSL_Resend s)) of
             None \<Rightarrow> None | Some s2 \<Rightarrow> Some (1, s2)))"
proof (intro conjI impI allI)
  show "Modbus_OSL_Repeat_Request s =
     (if Modbus_OSL_Attempt s < Modbus_OSL_Max_Attempts s
      then s\<lparr>Modbus_OSL_Attempt := Modbus_OSL_Attempt s + 1, Modbus_OSL_Forward_Flag := 1\<rparr>
      else s\<lparr>App_No_Response_calls := Suc (App_No_Response_calls s), Modbus_OSL_Attempt := 1\<rparr>)"
    by (simp add: Modbus_OSL_Repeat_Request_def Modbus_App_No_Response_def)
next
  assume lt: "Modbus_OSL_Attempt s < Modbus_OSL_Max_Attempts s"
  have "unat (Modbus_OSL_Attempt s + 1) = Suc (unat (Modbus_OSL_Attempt s))"
    using lt by (rule unat_succ_below)
  with lt show "unat (Modbus_OSL_Attempt (Modbus_OSL_Repeat_Request s)) =
      unat (Modbus_OSL_Attempt s) + 1"
    by (simp add: Modbus_OSL_Repeat_Request_def)
  from lt show "fst (Modbus_OSL_Resend (Modbus_OSL_Repeat_Request s)) = 1"
    by (simp add: Modbus_OSL_Repeat_Request_def Modbus_OSL_Resend_def)
  from lt show
    "fst (Modbus_OSL_Resend (snd (Modbus_OSL_Resend (Modbus_OSL_Repeat_Request s)))) = 0"
    by (simp add: Modbus_OSL_Repeat_Request_def Modbus_OSL_Resend_def)
next
  fix k
  assume a: "Modbus_OSL_Attempt s = 1 \<and> 0 < Modbus_OSL_Max_Attempts s"
    and k: "k < unat (Modbus_OSL_Max_Attempts s)"
  from a k retry_rounds_below [of s k]
  show "App_No_Response_calls ((retry_round ^^ k) s) = App_No_Response_calls s"
    and "unat (Modbus_OSL_Attempt ((retry_round ^^ k) s)) = Suc k"
    by simp_all
next
  assume a: "Modbus_OSL_Attempt s = 1 \<and> 0 < Modbus_OSL_Max_Attempts s"
  with retry_rounds_exhaust [of s]
  show "App_No_Response_calls ((retry_round ^^ unat (Modbus_OSL_Max_Attempts s)) s) =
      Suc (App_No_Response_calls s)"
    and "Modbus_OSL_Attempt ((retry_round ^^ unat (Modbus_OSL_Max_Attempts s)) s) = 1"
    by simp_all
next
  assume "Modbus_OSL_MainState s = MODBUS_OSL_ERROR
    \<and> (Modbus_OSL_State s = MODBUS_OSL_RTU_IDLE \<or> Modbus_OSL_State s = MODBUS_OSL_ASCII_IDLE)"
  then show "Modbus_OSL_Serial_Comm e a s =
      Some (1, Modbus_OSL_MainState_Set MODBUS_OSL_IDLE (Modbus_OSL_Repeat_Request s))"
    by (auto simp: Modbus_OSL_Serial_Comm_def)
next
  assume "Modbus_OSL_MainState s = MODBUS_OSL_IDLE \<and> Modbus_OSL_Forward_Flag s \<noteq> 0"
  then show "Modbus_OSL_Serial_Comm e a s =
      (case Modbus_App_Send a (snd (Modbus_OSL_Resend s)) of
         None \<Rightarrow> None | Some s2 \<Rightarrow> Some (1, s2))"
    by (simp add: Modbus_OSL_Serial_Comm_def Modbus_OSL_Resend_def)
qed

text \<open>
  On the concrete configuration (three attempts): two failures pass silently with the
  counter at 2 and 3, and the third sends the one notification and resets the counter.
\<close>

theorem retry_tracker_exhaustion_witness:
  "Modbus_OSL_Attempt idle_state = 1 \<and> 0 < Modbus_OSL_Max_Attempts idle_state
   \<and> unat (Modbus_OSL_Max_Attempts idle_state) = 3
   \<and> unat (Modbus_OSL_Attempt (Modbus_OSL_Repeat_Request idle_state)) = 2
   \<and> App_No_Response_calls ((retry_round ^^ 2) idle_state) = 0
   \<and> unat (Modbus_OSL_Attempt ((retry_round ^^ 2) idle_state)) = 3
   \<and> App_No_Response_calls ((retry_round ^^ 3) idle_state) = 1
   \<and> Modbus_OSL_Attempt ((retry_round ^^ 3) idle_state) = 1
   \<and> Modbus_OSL_Serial_Comm (bench_env Unsigned_char True) bench_app
        (idle_state\<lparr>Modbus_OSL_MainState := MODBUS_OSL_ERROR\<rparr>) =
       Some (1, idle_state\<lparr>Modbus_OSL_MainState := MODBUS_OSL_IDLE, Modbus_OSL_Attempt := 2,
                  Modbus_OSL_Forward_Flag := 1, MainState_history := [MODBUS_OSL_IDLE]\<rparr>)"
proof -
  have a: "Modbus_OSL_Attempt idle_state = 1" "0 < Modbus_OSL_Max_Attempts idle_state"
    "unat (Modbus_OSL_Max_Attempts idle_state) = 3" "App_No_Response_calls idle_state = 0"
    "Modbus_OSL_Attempt idle_state < Modbus_OSL_Max_Attempts idle_state"
    by (simp_all add: idle_state_def)
  note t = retry_tracker_exhaustion [of idle_state "bench_env Unsigned_char True" bench_app]
  note p = retry_tracker_exhaustion [of "idle_state\<lparr>Modbus_OSL_MainState := MODBUS_OSL_ERROR\<rparr>"
      "bench_env Unsigned_char True" bench_app]
  from t a have "unat (Modbus_OSL_Attempt (Modbus_OSL_Repeat_Request idle_state)) = 2"
    by simp
  moreover from t a have "\<forall>k<3. App_No_Response_calls ((retry_round ^^ k) idle_state) = 0 \<and>
      unat (Modbus_OSL_Attempt ((retry_round ^^ k) idle_state)) = Suc k"
    by simp
  then have "App_No_Response_calls ((retry_round ^^ 2) idle_state) = 0 \<and>
      unat (Modbus_OSL_Attempt ((retry_round ^^ 2) idle_state)) = 3"
    by (metis Suc_1 eval_nat_numeral(3) lessI)
  moreover from t a have "App_No_Response_calls ((retry_round ^^ 3) idle_state) = 1
      \<and> Modbus_OSL_Attempt ((retry_round ^^ 3) idle_state) = 1"
    by simp
  moreover from p have "Modbus_OSL_Serial_Comm (bench_env Unsigned_char True) bench_app
        (idle_state\<lparr>Modbus_OSL_MainState := MODBUS_OSL_ERROR\<rparr>) =
       Some (1, idle_state\<lparr>Modbus_OSL_MainState := MODBUS_OSL_IDLE, Modbus_OSL_Attempt := 2,
                  Modbus_OSL_Forward_Flag := 1, MainState_history := [MODBUS_OSL_IDLE]\<rparr>)"
    by (simp add: idle_state_def Modbus_OSL_MainState_Set_def)
  ultimately show ?thesis using a by simp
qed

text \<open>
  The claim as it stands fails for a maximum of 0, which \<open>Modbus_OSL_Init\<close> stores
  unchecked: after exactly as many failures as the maximum, that is none, no notification
  has been sent; the notification goes out at the first failure.
\<close>

theorem retry_tracker_zero_maximum_counterexample:
  "Modbus_OSL_Attempt (idle_state\<lparr>Modbus_OSL_Max_Attempts := 0\<rparr>) = 1
   \<and> App_No_Response_calls
       ((retry_round ^^ unat (Modbus_OSL_Max_Attempts (idle_state\<lparr>Modbus_OSL_Max_Attempts := 0\<rparr>)))
          (idle_state\<lparr>Modbus_OSL_Max_Attempts := 0\<rparr>))
     \<noteq> Suc (App_No_Response_calls (idle_state\<lparr>Modbus_OSL_Max_Attempts := 0\<rparr>))
   \<and> App_No_Response_calls (retry_round (idle_state\<lparr>Modbus_OSL_Max_Attempts := 0\<rparr>)) =
       Suc (App_No_Response_calls (idle_state\<lparr>Modbus_OSL_Max_Attempts := 0\<rparr>))"
  by (simp add: idle_state_def retry_round_def Modbus_OSL_Resend_def
      Modbus_OSL_Repeat_Request_def Modbus_App_No_Response_def)

subsection \<open>The transmit loop\<close>

lemma sint_below_128: "sint (i::u8) < 128"
  using sint_lt [of i] by simp

lemma uint_of_nat_u8: "j < 256 \<Longrightarrow> uint (of_nat j :: u8) = int j"
  by (simp add: unsigned_of_nat take_bit_nat_eq_self)

lemma sint_of_nat_u8: "j < 128 \<Longrightarrow> sint (of_nat j :: u8) = int j"
  by (simp add: signed_of_nat signed_take_bit_int_eq_self)

lemma char_int_of_nat:
  "j < 256 \<Longrightarrow> (k = Signed_char \<longrightarrow> j < 128) \<Longrightarrow> char_int k (of_nat j) = int j"
  by (cases k) (simp_all add: char_int_def uint_of_nat_u8 sint_of_nat_u8)

text \<open>
  Where the counter can reach the length, the loop sends the bytes at offsets
  \<open>j, \<dots>, L_adu - 1\<close> in this order and stops.
\<close>

lemma Send_loop_runs:
  assumes "j \<le> unat L" and "k = Signed_char \<longrightarrow> unat L \<le> 127"
  shows "Modbus_OSL_Send_loop k m L (of_nat j) s =
     Some (s\<lparr>UART1_sent := UART1_sent s @ map (\<lambda>x. m (int x)) [j..<unat L]\<rparr>)"
  using assms
proof (induction "unat L - j" arbitrary: j s)
  case 0
  then have j: "j = unat L" by simp
  have "unat L < 2 ^ LENGTH(8)" by (rule unsigned_less)
  then have "j < 256" using j by simp
  moreover have "k = Signed_char \<longrightarrow> j < 128" using 0 j by auto
  ultimately have "char_int k (of_nat j) = int j" by (rule char_int_of_nat)
  moreover have "uint L = int j" unfolding uint_nat [of L] using j by simp
  ultimately have "\<not> char_int k (of_nat j) < uint L" by simp
  then show ?case using j by (subst Modbus_OSL_Send_loop.simps) simp
next
  case (Suc d)
  then have lt: "j < unat L" by simp
  have "unat L < 2 ^ LENGTH(8)" by (rule unsigned_less)
  with lt have j256: "j < 256" by simp
  have ci: "char_int k (of_nat j) = int j"
    using lt Suc.prems(2) j256 by (intro char_int_of_nat) auto
  have "int j < uint L" unfolding uint_nat [of L] using lt by linarith
  then have cond: "char_int k (of_nat j) < uint L" using ci by simp
  have next_i: "(of_nat j :: u8) + 1 = of_nat (Suc j)" by simp
  let ?s1 = "UARTCharPut (m (int j)) s"
  have upt: "[j..<unat L] = j # [Suc j..<unat L]" using lt by (simp add: upt_conv_Cons)
  have "Modbus_OSL_Send_loop k m L (of_nat j) s =
      Modbus_OSL_Send_loop k m L (of_nat j + 1) (UARTCharPut (m (char_int k (of_nat j))) s)"
    using cond by (subst Modbus_OSL_Send_loop.simps) (simp only: if_True)
  also have "\<dots> = Modbus_OSL_Send_loop k m L (of_nat (Suc j)) ?s1"
    by (simp only: next_i ci)
  also have "\<dots> = Some (?s1\<lparr>UART1_sent := UART1_sent ?s1 @
        map (\<lambda>x. m (int x)) [Suc j..<unat L]\<rparr>)"
    using Suc.hyps(2) lt Suc.prems(2) by (intro Suc.hyps(1)) simp_all
  also have "\<dots> = Some (s\<lparr>UART1_sent := UART1_sent s @ map (\<lambda>x. m (int x)) [j..<unat L]\<rparr>)"
    unfolding upt by (simp add: UARTCharPut_def)
  finally show ?case .
qed

text \<open>
  With a signed counter and a length above 127 the loop condition holds for every value of
  the counter, so no run of the loop ends.
\<close>

lemma Send_loop_signed_never_Some:
  assumes "Modbus_OSL_Send_loop k mb_req_adu L_adu i s = Some y"
  shows "\<not> (k = Signed_char \<and> 127 < unat L_adu)"
proof (rule Modbus_OSL_Send_loop.raw_induct
    [where P = "\<lambda>k m L i s y. \<not> (k = Signed_char \<and> 127 < unat L)", OF _ assms])
  fix f k m L i s y
  assume ih: "\<And>k m L i s y. f k m L i s = Some y \<Longrightarrow> \<not> (k = Signed_char \<and> 127 < unat L)"
    and step: "(if char_int k i < uint L then f k m L (i + 1) (UARTCharPut (m (char_int k i)) s)
       else Some s) = Some y"
  show "\<not> (k = Signed_char \<and> 127 < unat L)"
  proof
    assume a: "k = Signed_char \<and> 127 < unat L"
    have "int (unat L) = uint L" by (rule of_nat_unat)
    with a have "127 < uint L" by linarith
    then have "sint i < uint L"
      using sint_below_128 [of i] by linarith
    with a step have "f k m L (i + 1) (UARTCharPut (m (char_int k i)) s) = Some y"
      by (simp add: char_int_def)
    from ih [OF this] a show False by simp
  qed
qed

lemma Send_loop_signed_diverges:
  "127 < unat L_adu \<Longrightarrow> Modbus_OSL_Send_loop Signed_char mb_req_adu L_adu i s = None"
  using Send_loop_signed_never_Some [of Signed_char mb_req_adu L_adu i s]
  by (cases "Modbus_OSL_Send_loop Signed_char mb_req_adu L_adu i s") auto

lemma Send_returns:
  assumes "k = Signed_char \<longrightarrow> unat L \<le> 127"
  shows "Modbus_OSL_Send k m L s =
     Some (s\<lparr>GPIO_PORTF_DATA_R := (GPIO_PORTF_DATA_R s OR 1) AND NOT 1,
             UART1_sent := UART1_sent s @ map (\<lambda>x. m (int x)) [0..<unat L]\<rparr>)"
proof -
  have "Modbus_OSL_Send_loop k m L (of_nat 0) (s\<lparr>GPIO_PORTF_DATA_R := GPIO_PORTF_DATA_R s OR 1\<rparr>) =
     Some ((s\<lparr>GPIO_PORTF_DATA_R := GPIO_PORTF_DATA_R s OR 1\<rparr>)
        \<lparr>UART1_sent := UART1_sent (s\<lparr>GPIO_PORTF_DATA_R := GPIO_PORTF_DATA_R s OR 1\<rparr>) @
           map (\<lambda>x. m (int x)) [0..<unat L]\<rparr>)"
    using assms by (intro Send_loop_runs) simp_all
  then show ?thesis by (simp add: Modbus_OSL_Send_def)
qed

lemma Send_signed_long_never_returns:
  "127 < unat L \<Longrightarrow> Modbus_OSL_Send Signed_char m L s = None"
  by (simp add: Modbus_OSL_Send_def Send_loop_signed_diverges)

text \<open>With an unsigned counter the loop ends for every length.\<close>

lemma Send_unsigned_returns:
  "Modbus_OSL_Send Unsigned_char m L s =
     Some (s\<lparr>GPIO_PORTF_DATA_R := (GPIO_PORTF_DATA_R s OR 1) AND NOT 1,
             UART1_sent := UART1_sent s @ map (\<lambda>x. m (int x)) [0..<unat L]\<rparr>)"
  by (rule Send_returns) simp

subsection \<open>Sending a request\<close>

lemma Output_mount_frame:
  "Modbus_OSL_Mode (Modbus_OSL_Output_mount e pdu Slave L s) = Modbus_OSL_Mode s"
  "Modbus_OSL_Timeout_B (Modbus_OSL_Output_mount e pdu Slave L s) = Modbus_OSL_Timeout_B s"
  "Modbus_OSL_Timeout_R (Modbus_OSL_Output_mount e pdu Slave L s) = Modbus_OSL_Timeout_R s"
  "MainState_history (Modbus_OSL_Output_mount e pdu Slave L s) = MainState_history s"
  "Modbus_OSL_MainState (Modbus_OSL_Output_mount e pdu Slave L s) = Modbus_OSL_MainState s"
  by (simp_all add: Modbus_OSL_Output_mount_def Modbus_OSL_State_Set_def
      split: Modbus_OSL_Modes.splits)

text \<open>
  Where the transmit loop ends, \<open>Modbus_OSL_Output\<close> returns: the state is the mounted one
  with the expected slave stored, the frame on the line, timer 0 armed in RTU mode, and
  timer 2 armed by the function that fits the address.
\<close>

lemma Output_returns:
  assumes "plain_char e = Signed_char \<longrightarrow>
     unat (Modbus_OSL_L_Req_ADU (Modbus_OSL_Output_mount e pdu Slave L s)) \<le> 127"
  shows "\<exists>s2. Modbus_OSL_Output e pdu Slave L s =
       Some ((if Slave = 0 then Modbus_OSL_BroadCast_Timeout else Modbus_OSL_Response_Timeout)
               (if Modbus_OSL_Mode s = MODBUS_OSL_MODE_RTU
                then s2\<lparr>TIMER0_load := Modbus_OSL_RTU_Get_Timeout_35 e, TIMER0_enabled := True\<rparr>
                else s2))
     \<and> s2 = (Modbus_OSL_Output_mount e pdu Slave L s)
            \<lparr>Modbus_OSL_Expected_Slave := Slave,
             GPIO_PORTF_DATA_R :=
               (GPIO_PORTF_DATA_R (Modbus_OSL_Output_mount e pdu Slave L s) OR 1) AND NOT 1,
             UART1_sent := UART1_sent (Modbus_OSL_Output_mount e pdu Slave L s) @
               map (\<lambda>x. Req_ADU_pointer e
                      ((Modbus_OSL_Output_mount e pdu Slave L s)\<lparr>Modbus_OSL_Expected_Slave := Slave\<rparr>)
                      (int x))
                 [0..<unat (Modbus_OSL_L_Req_ADU (Modbus_OSL_Output_mount e pdu Slave L s))]\<rparr>"
proof -
  let ?s1 = "(Modbus_OSL_Output_mount e pdu Slave L s)\<lparr>Modbus_OSL_Expected_Slave := Slave\<rparr>"
  have "plain_char e = Signed_char \<longrightarrow> unat (Modbus_OSL_L_Req_ADU ?s1) \<le> 127"
    using assms by simp
  then have "Modbus_OSL_Send (plain_char e) (Req_ADU_pointer e ?s1) (Modbus_OSL_L_Req_ADU ?s1) ?s1 =
     Some (?s1\<lparr>GPIO_PORTF_DATA_R := (GPIO_PORTF_DATA_R ?s1 OR 1) AND NOT 1,
             UART1_sent := UART1_sent ?s1 @
               map (\<lambda>x. Req_ADU_pointer e ?s1 (int x)) [0..<unat (Modbus_OSL_L_Req_ADU ?s1)]\<rparr>)"
    by (rule Send_returns)
  then show ?thesis
    by (simp add: Modbus_OSL_Output_def Let_def Output_mount_frame)
qed

lemma Output_stuck:
  assumes "plain_char e = Signed_char"
    and "127 < unat (Modbus_OSL_L_Req_ADU (Modbus_OSL_Output_mount e pdu Slave L s))"
  shows "Modbus_OSL_Output e pdu Slave L s = None"
  using assms by (simp add: Modbus_OSL_Output_def Let_def Send_signed_long_never_returns)

text \<open>
  Claim C2. A request to address 0 whose transmission ends (always, unless plain
  \<^verbatim>\<open>char\<close> is signed and the stored frame length is above 127) leaves
  \<open>Modbus_OSL_Output\<close> in state \<open>DELAY\<close> with timer 2 running on the broadcast count; the
  only state written is \<open>DELAY\<close>. In \<open>DELAY\<close> the poll does nothing, a completed frame does
  not raise the processing flag, and an incoming character is read and dropped without a
  call of the reception machine. The expiry of timer 2 then writes \<open>IDLE\<close>: the states
  written since the request are \<open>DELAY\<close>, \<open>IDLE\<close>, and \<open>WAITREPLY\<close> is not among them.
\<close>

theorem broadcast_never_awaits_reply:
  assumes "plain_char e = Signed_char \<longrightarrow>
     unat (Modbus_OSL_L_Req_ADU (Modbus_OSL_Output_mount e mb_req_pdu 0 L_pdu s)) \<le> 127"
  shows "\<exists>s1 s2. Modbus_OSL_Output e mb_req_pdu 0 L_pdu s = Some s1
     \<and> Modbus_OSL_MainState s1 = MODBUS_OSL_DELAY
     \<and> MainState_history s1 = MainState_history s @ [MODBUS_OSL_DELAY]
     \<and> TIMER2_enabled s1 \<and> TIMER2_load s1 = Modbus_OSL_Timeout_B s
     \<and> Modbus_OSL_Serial_Comm e a s1 = Some (1, s1)
     \<and> Modbus_OSL_Reception_Complete s1 = s1
     \<and> UART1IntHandler n e ulStatus s1 =
         Inr (s1\<lparr>GPIO_PORTF_DATA_R := (GPIO_PORTF_DATA_R s1 OR 1) AND NOT 1,
                 UART1_discarded := Suc (UART1_discarded s1)\<rparr>)
     \<and> Modbus_OSL_Timeouts n s1 = Inr s2
     \<and> Modbus_OSL_MainState s2 = MODBUS_OSL_IDLE
     \<and> MainState_history s2 = MainState_history s @ [MODBUS_OSL_DELAY, MODBUS_OSL_IDLE]
     \<and> MODBUS_OSL_WAITREPLY \<notin> set (drop (length (MainState_history s)) (MainState_history s2))"
proof -
  from Output_returns [OF assms] obtain t where
    out: "Modbus_OSL_Output e mb_req_pdu 0 L_pdu s =
       Some (Modbus_OSL_BroadCast_Timeout
               (if Modbus_OSL_Mode s = MODBUS_OSL_MODE_RTU
                then t\<lparr>TIMER0_load := Modbus_OSL_RTU_Get_Timeout_35 e, TIMER0_enabled := True\<rparr>
                else t))"
    and t: "MainState_history t = MainState_history s" "Modbus_OSL_Timeout_B t = Modbus_OSL_Timeout_B s"
    by (auto simp: Output_mount_frame)
  define s1 where "s1 = Modbus_OSL_BroadCast_Timeout
               (if Modbus_OSL_Mode s = MODBUS_OSL_MODE_RTU
                then t\<lparr>TIMER0_load := Modbus_OSL_RTU_Get_Timeout_35 e, TIMER0_enabled := True\<rparr>
                else t)"
  have st: "Modbus_OSL_MainState s1 = MODBUS_OSL_DELAY"
    by (simp add: s1_def Modbus_OSL_BroadCast_Timeout_def Modbus_OSL_MainState_Set_def)
  have hist: "MainState_history s1 = MainState_history s @ [MODBUS_OSL_DELAY]"
    using t by (simp add: s1_def Modbus_OSL_BroadCast_Timeout_def Modbus_OSL_MainState_Set_def)
  have tim: "TIMER2_enabled s1" "TIMER2_load s1 = Modbus_OSL_Timeout_B s"
    using t by (simp_all add: s1_def Modbus_OSL_BroadCast_Timeout_def Modbus_OSL_MainState_Set_def)
  have poll: "Modbus_OSL_Serial_Comm e a s1 = Some (1, s1)"
    using st by (simp add: Modbus_OSL_Serial_Comm_def)
  have rc: "Modbus_OSL_Reception_Complete s1 = s1"
    using st by (simp add: Modbus_OSL_Reception_Complete_def)
  have ch: "UART1IntHandler n e ulStatus s1 =
         Inr (s1\<lparr>GPIO_PORTF_DATA_R := (GPIO_PORTF_DATA_R s1 OR 1) AND NOT 1,
                 UART1_discarded := Suc (UART1_discarded s1)\<rparr>)"
    using st by (simp add: UART1IntHandler_def Let_def UARTCharGetNonBlocking_def)
  have exp: "Modbus_OSL_Timeouts n s1 = Inr (Modbus_OSL_MainState_Set MODBUS_OSL_IDLE s1)"
    using st by (simp add: Modbus_OSL_Timeouts_def)
  have st2: "Modbus_OSL_MainState (Modbus_OSL_MainState_Set MODBUS_OSL_IDLE s1) = MODBUS_OSL_IDLE"
    by (simp add: Modbus_OSL_MainState_Set_def)
  have hist2: "MainState_history (Modbus_OSL_MainState_Set MODBUS_OSL_IDLE s1) =
      MainState_history s @ [MODBUS_OSL_DELAY, MODBUS_OSL_IDLE]"
    using hist by (simp add: Modbus_OSL_MainState_Set_def)
  have never: "MODBUS_OSL_WAITREPLY \<notin> set (drop (length (MainState_history s))
      (MainState_history (Modbus_OSL_MainState_Set MODBUS_OSL_IDLE s1)))"
    by (simp add: hist2)
  from out st hist tim poll rc ch exp st2 hist2 never show ?thesis
    unfolding s1_def [symmetric] by blast
qed

text \<open>
  The broadcast of the PDU \<open>06 00 01 00 02\<close> from the concrete idle state, with a signed
  counter: the frame has eight bytes, and the states written are \<open>DELAY\<close>, then \<open>IDLE\<close>.
\<close>

theorem broadcast_never_awaits_reply_witness:
  "(plain_char (bench_env Signed_char True) = Signed_char
    \<and> unat (Modbus_OSL_L_Req_ADU
         (Modbus_OSL_Output_mount (bench_env Signed_char True) [6, 0, 1, 0, 2] 0 5 idle_state)) \<le> 127)
   \<and> (\<exists>s1 s2. Modbus_OSL_Output (bench_env Signed_char True) [6, 0, 1, 0, 2] 0 5 idle_state = Some s1
        \<and> Modbus_OSL_MainState s1 = MODBUS_OSL_DELAY
        \<and> TIMER2_enabled s1 \<and> TIMER2_load s1 = 3200000
        \<and> Modbus_OSL_Serial_Comm (bench_env Signed_char True) bench_app s1 = Some (1, s1)
        \<and> Modbus_OSL_Timeouts 0 s1 = Inr s2
        \<and> MainState_history s2 = [MODBUS_OSL_DELAY, MODBUS_OSL_IDLE])"
proof -
  have h: "plain_char (bench_env Signed_char True) = Signed_char \<longrightarrow>
     unat (Modbus_OSL_L_Req_ADU
         (Modbus_OSL_Output_mount (bench_env Signed_char True) [6, 0, 1, 0, 2] 0 5 idle_state)) \<le> 127"
    by (simp add: bench_env_def idle_state_def Modbus_OSL_Output_mount_def Modbus_OSL_State_Set_def)
  have k: "plain_char (bench_env Signed_char True) = Signed_char" by (simp add: bench_env_def)
  have i: "MainState_history idle_state = []" "Modbus_OSL_Timeout_B idle_state = 3200000"
    by (simp_all add: idle_state_def)
  from broadcast_never_awaits_reply [OF h, of bench_app 0 0] obtain s1 s2 where
    "Modbus_OSL_Output (bench_env Signed_char True) [6, 0, 1, 0, 2] 0 5 idle_state = Some s1"
    "Modbus_OSL_MainState s1 = MODBUS_OSL_DELAY"
    "TIMER2_enabled s1" "TIMER2_load s1 = Modbus_OSL_Timeout_B idle_state"
    "Modbus_OSL_Serial_Comm (bench_env Signed_char True) bench_app s1 = Some (1, s1)"
    "Modbus_OSL_Timeouts 0 s1 = Inr s2"
    "MainState_history s2 = MainState_history idle_state @ [MODBUS_OSL_DELAY, MODBUS_OSL_IDLE]"
    by blast
  with i have "\<exists>s1 s2. Modbus_OSL_Output (bench_env Signed_char True) [6, 0, 1, 0, 2] 0 5 idle_state = Some s1
        \<and> Modbus_OSL_MainState s1 = MODBUS_OSL_DELAY
        \<and> TIMER2_enabled s1 \<and> TIMER2_load s1 = 3200000
        \<and> Modbus_OSL_Serial_Comm (bench_env Signed_char True) bench_app s1 = Some (1, s1)
        \<and> Modbus_OSL_Timeouts 0 s1 = Inr s2
        \<and> MainState_history s2 = [MODBUS_OSL_DELAY, MODBUS_OSL_IDLE]"
    by auto
  with h k show ?thesis by blast
qed

subsection \<open>Consuming a complete frame\<close>

lemma to_App_loop_calls:
  assumes "j < 256"
  shows "Modbus_OSL_RTU_to_App_loop e (of_nat j) s =
     s\<lparr>App_Receive_Char_calls := App_Receive_Char_calls s @
          map (\<lambda>x. (Modbus_OSL_RTU_Char_Get e (of_nat x), of_nat x - 1))
            [j..<unat (Modbus_OSL_RTU_L_Msg_Get e)]\<rparr>"
  using assms
proof (induction "unat (Modbus_OSL_RTU_L_Msg_Get e) - j" arbitrary: j s)
  case 0
  then have ge: "unat (Modbus_OSL_RTU_L_Msg_Get e) \<le> j" by simp
  moreover have "unat (of_nat j :: u8) = j"
    using 0 by (simp add: unat_of_nat take_bit_nat_eq_self)
  ultimately have "\<not> (of_nat j :: u8) < Modbus_OSL_RTU_L_Msg_Get e"
    by (simp add: word_less_nat_alt)
  then show ?case using ge by (subst Modbus_OSL_RTU_to_App_loop.simps) simp
next
  case (Suc d)
  then have lt: "j < unat (Modbus_OSL_RTU_L_Msg_Get e)" by simp
  have uj: "unat (of_nat j :: u8) = j"
    using Suc.prems by (simp add: unat_of_nat take_bit_nat_eq_self)
  have cond: "(of_nat j :: u8) < Modbus_OSL_RTU_L_Msg_Get e"
    using lt uj by (simp add: word_less_nat_alt)
  have "unat (Modbus_OSL_RTU_L_Msg_Get e) < 2 ^ LENGTH(8)" by (rule unsigned_less)
  with lt have sj: "Suc j < 256" by simp
  have next_i: "(of_nat j :: u8) + 1 = of_nat (Suc j)" by simp
  have ih: "Modbus_OSL_RTU_to_App_loop e (of_nat (Suc j)) t =
     t\<lparr>App_Receive_Char_calls := App_Receive_Char_calls t @
          map (\<lambda>x. (Modbus_OSL_RTU_Char_Get e (of_nat x), of_nat x - 1))
            [Suc j..<unat (Modbus_OSL_RTU_L_Msg_Get e)]\<rparr>" for t
    using Suc.hyps(2) sj by (intro Suc.hyps(1)) simp_all
  have upt: "[j..<unat (Modbus_OSL_RTU_L_Msg_Get e)] =
      j # [Suc j..<unat (Modbus_OSL_RTU_L_Msg_Get e)]"
    using lt by (simp add: upt_conv_Cons)
  let ?s1 = "Modbus_App_Receive_Char (Modbus_OSL_RTU_Char_Get e (of_nat j)) (of_nat j - 1) s"
  have "Modbus_OSL_RTU_to_App_loop e (of_nat j) s =
      Modbus_OSL_RTU_to_App_loop e (of_nat j + 1) ?s1"
    using cond by (subst Modbus_OSL_RTU_to_App_loop.simps) (simp only: if_True)
  also have "\<dots> = Modbus_OSL_RTU_to_App_loop e (of_nat (Suc j)) ?s1"
    by (simp only: next_i)
  also have "\<dots> = ?s1\<lparr>App_Receive_Char_calls := App_Receive_Char_calls ?s1 @
          map (\<lambda>x. (Modbus_OSL_RTU_Char_Get e (of_nat x), of_nat x - 1))
            [Suc j..<unat (Modbus_OSL_RTU_L_Msg_Get e)]\<rparr>"
    by (rule ih)
  also have "\<dots> = s\<lparr>App_Receive_Char_calls := App_Receive_Char_calls s @
          map (\<lambda>x. (Modbus_OSL_RTU_Char_Get e (of_nat x), of_nat x - 1))
            [j..<unat (Modbus_OSL_RTU_L_Msg_Get e)]\<rparr>"
    unfolding upt by (simp add: Modbus_App_Receive_Char_def)
  finally show ?case .
qed

text \<open>
  The hand-over copies characters \<open>1, \<dots>, L - 1\<close> of the received message to positions
  \<open>0, \<dots>, L - 2\<close> of the application and reports the length \<open>L - 1\<close>.
\<close>

lemma RTU_to_App_delivers:
  "Modbus_OSL_RTU_to_App e s =
     s\<lparr>App_Receive_Char_calls := App_Receive_Char_calls s @
          map (\<lambda>x. (Modbus_OSL_RTU_Char_Get e (of_nat x), of_nat x - 1))
            [1..<unat (Modbus_OSL_RTU_L_Msg_Get e)],
       App_L_Msg := Modbus_OSL_RTU_L_Msg_Get e - 1\<rparr>"
proof -
  have "Modbus_OSL_RTU_to_App_loop e (of_nat 1) s =
     s\<lparr>App_Receive_Char_calls := App_Receive_Char_calls s @
          map (\<lambda>x. (Modbus_OSL_RTU_Char_Get e (of_nat x), of_nat x - 1))
            [1..<unat (Modbus_OSL_RTU_L_Msg_Get e)]\<rparr>"
    by (rule to_App_loop_calls) simp
  then show ?thesis by (simp add: Modbus_OSL_RTU_to_App_def Modbus_App_L_Msg_Set_def)
qed

text \<open>
  Claim C3. In RTU mode, with the processing flag raised and character 0 of the message
  equal to the expected slave, \<open>Modbus_OSL_Receive_CallBack\<close> first clears the flag, stops
  timer 2 and writes \<open>PROCESSING\<close>; the CRC check is made in that state. If the check
  fails, the frame mark is set back to \<open>OK\<close>, the state \<open>ERROR\<close> is written and the result is
  0, with nothing handed to the application. If it passes, the result is 1 and the
  application has received characters \<open>1, \<dots>, L - 1\<close> of the message and the length
  \<open>L - 1\<close>.
\<close>

theorem expected_reply_is_processed:
  assumes "Modbus_OSL_Processing_Flag s \<noteq> 0"
    and "Modbus_OSL_Mode s = MODBUS_OSL_MODE_RTU"
    and "Modbus_OSL_RTU_Char_Get e 0 = Modbus_OSL_Expected_Slave s"
  shows "\<exists>s2. s2 = s\<lparr>Modbus_OSL_Processing_Flag := 0, TIMER2_enabled := False,
                     Modbus_OSL_MainState := MODBUS_OSL_PROCESSING,
                     MainState_history := MainState_history s @ [MODBUS_OSL_PROCESSING]\<rparr>
     \<and> \<not> TIMER2_enabled s2 \<and> Modbus_OSL_MainState s2 = MODBUS_OSL_PROCESSING
     \<and> Modbus_OSL_Receive_CallBack e s =
        (if Modbus_OSL_RTU_Control_CRC e s2
         then (1, s2\<lparr>App_Receive_Char_calls := App_Receive_Char_calls s @
                       map (\<lambda>x. (Modbus_OSL_RTU_Char_Get e (of_nat x), of_nat x - 1))
                         [1..<unat (Modbus_OSL_RTU_L_Msg_Get e)],
                     App_L_Msg := Modbus_OSL_RTU_L_Msg_Get e - 1\<rparr>)
         else (0, s2\<lparr>Modbus_OSL_Frame := MODBUS_OSL_Frame_OK,
                     Modbus_OSL_MainState := MODBUS_OSL_ERROR,
                     MainState_history :=
                       MainState_history s @ [MODBUS_OSL_PROCESSING, MODBUS_OSL_ERROR]\<rparr>))"
proof -
  define s2 where "s2 = Modbus_OSL_MainState_Set MODBUS_OSL_PROCESSING
      (TimerDisable_TIMER2 (s\<lparr>Modbus_OSL_Processing_Flag := 0\<rparr>))"
  have s2: "s2 = s\<lparr>Modbus_OSL_Processing_Flag := 0, TIMER2_enabled := False,
                     Modbus_OSL_MainState := MODBUS_OSL_PROCESSING,
                     MainState_history := MainState_history s @ [MODBUS_OSL_PROCESSING]\<rparr>"
    by (simp add: s2_def Modbus_OSL_MainState_Set_def TimerDisable_TIMER2_def)
  have m2: "Modbus_OSL_Mode s2 = MODBUS_OSL_MODE_RTU" using assms(2) by (simp add: s2)
  have cb: "Modbus_OSL_Receive_CallBack e s =
      (if Modbus_OSL_RTU_Control_CRC e s2 then (1, Modbus_OSL_RTU_to_App e s2)
       else (0, Modbus_OSL_MainState_Set MODBUS_OSL_ERROR
                  (Modbus_OSL_Frame_Set MODBUS_OSL_Frame_OK s2)))"
    using assms m2
    by (simp add: Modbus_OSL_Receive_CallBack_def Modbus_OSL_Processing_Msg_def Let_def
        s2_def [symmetric])
  have ok: "Modbus_OSL_RTU_to_App e s2 =
      s2\<lparr>App_Receive_Char_calls := App_Receive_Char_calls s @
            map (\<lambda>x. (Modbus_OSL_RTU_Char_Get e (of_nat x), of_nat x - 1))
              [1..<unat (Modbus_OSL_RTU_L_Msg_Get e)],
          App_L_Msg := Modbus_OSL_RTU_L_Msg_Get e - 1\<rparr>"
    by (simp add: RTU_to_App_delivers) (simp add: s2)
  have bad: "Modbus_OSL_MainState_Set MODBUS_OSL_ERROR (Modbus_OSL_Frame_Set MODBUS_OSL_Frame_OK s2) =
      s2\<lparr>Modbus_OSL_Frame := MODBUS_OSL_Frame_OK, Modbus_OSL_MainState := MODBUS_OSL_ERROR,
          MainState_history := MainState_history s @ [MODBUS_OSL_PROCESSING, MODBUS_OSL_ERROR]\<rparr>"
    by (simp add: Modbus_OSL_MainState_Set_def Modbus_OSL_Frame_Set_def s2)
  have flags: "\<not> TIMER2_enabled s2" "Modbus_OSL_MainState s2 = MODBUS_OSL_PROCESSING"
    by (simp_all add: s2)
  show ?thesis
    using s2 flags cb unfolding ok bad by (intro exI [of _ s2]) simp
qed

text \<open>
  The concrete message is \<open>05 03 02 03 04\<close> from the expected slave 5, with timer 2 running.
  With a good CRC the application receives \<open>03 02 03 04\<close> and the length 4; with a bad one
  (here after a parity fault has marked the frame) the mark is \<open>OK\<close> again and the state is
  \<open>ERROR\<close>. In both cases timer 2 is stopped.
\<close>

theorem expected_reply_is_processed_witness:
  "Modbus_OSL_Processing_Flag awaiting_state \<noteq> 0
   \<and> Modbus_OSL_Mode awaiting_state = MODBUS_OSL_MODE_RTU
   \<and> Modbus_OSL_RTU_Char_Get (bench_env Unsigned_char True) 0 = Modbus_OSL_Expected_Slave awaiting_state
   \<and> fst (Modbus_OSL_Receive_CallBack (bench_env Unsigned_char True) awaiting_state) = 1
   \<and> App_Receive_Char_calls (snd (Modbus_OSL_Receive_CallBack (bench_env Unsigned_char True) awaiting_state))
       = [(3, 0), (2, 1), (3, 2), (4, 3)]
   \<and> App_L_Msg (snd (Modbus_OSL_Receive_CallBack (bench_env Unsigned_char True) awaiting_state)) = 4
   \<and> \<not> TIMER2_enabled (snd (Modbus_OSL_Receive_CallBack (bench_env Unsigned_char True) awaiting_state))
   \<and> Modbus_OSL_Receive_CallBack (bench_env Unsigned_char True)
        (awaiting_state\<lparr>Modbus_OSL_Frame := MODBUS_OSL_Frame_NOK\<rparr>) =
       (0, awaiting_state\<lparr>Modbus_OSL_Processing_Flag := 0, TIMER2_enabled := False,
             Modbus_OSL_Frame := MODBUS_OSL_Frame_OK, Modbus_OSL_MainState := MODBUS_OSL_ERROR,
             MainState_history := [MODBUS_OSL_WAITREPLY, MODBUS_OSL_PROCESSING, MODBUS_OSL_ERROR]\<rparr>)"
proof -
  let ?e = "bench_env Unsigned_char True"
  let ?n = "awaiting_state\<lparr>Modbus_OSL_Frame := MODBUS_OSL_Frame_NOK\<rparr>"
  have a: "Modbus_OSL_Processing_Flag awaiting_state \<noteq> 0"
    "Modbus_OSL_Mode awaiting_state = MODBUS_OSL_MODE_RTU"
    "Modbus_OSL_RTU_Char_Get ?e 0 = Modbus_OSL_Expected_Slave awaiting_state"
    by (simp_all add: awaiting_state_def idle_state_def bench_env_def)
  have b: "Modbus_OSL_Processing_Flag ?n \<noteq> 0" "Modbus_OSL_Mode ?n = MODBUS_OSL_MODE_RTU"
    "Modbus_OSL_RTU_Char_Get ?e 0 = Modbus_OSL_Expected_Slave ?n"
    by (simp_all add: awaiting_state_def idle_state_def bench_env_def)
  have good: "Modbus_OSL_Receive_CallBack ?e awaiting_state =
     (1, awaiting_state\<lparr>Modbus_OSL_Processing_Flag := 0, TIMER2_enabled := False,
            Modbus_OSL_MainState := MODBUS_OSL_PROCESSING,
            MainState_history := [MODBUS_OSL_WAITREPLY, MODBUS_OSL_PROCESSING],
            App_Receive_Char_calls := [(3, 0), (2, 1), (3, 2), (4, 3)], App_L_Msg := 4\<rparr>)"
    using expected_reply_is_processed [OF a]
    by (simp add: awaiting_state_def idle_state_def bench_env_def upt_rec)
  have bad: "Modbus_OSL_Receive_CallBack ?e ?n =
       (0, awaiting_state\<lparr>Modbus_OSL_Processing_Flag := 0, TIMER2_enabled := False,
             Modbus_OSL_Frame := MODBUS_OSL_Frame_OK, Modbus_OSL_MainState := MODBUS_OSL_ERROR,
             MainState_history := [MODBUS_OSL_WAITREPLY, MODBUS_OSL_PROCESSING, MODBUS_OSL_ERROR]\<rparr>)"
    using expected_reply_is_processed [OF b]
    by (simp add: awaiting_state_def idle_state_def bench_env_def)
  from a good bad show ?thesis by simp
qed

subsection \<open>The character interrupt\<close>

text \<open>
  Claim C4. The character handler of the reception machine, \<open>Modbus_OSL_RTU_UART\<close>, is
  called by an interrupt only in state \<open>WAITREPLY\<close> or \<open>ERROR\<close>. In both states, in RTU mode
  and without a parity fault, it is called exactly once: the character of a straggling
  message is consumed in \<open>ERROR\<close> too, and the end of that message raises no processing
  flag there. In every other state the interrupt returns after reading one character with
  \<open>UARTCharGetNonBlocking\<close> and dropping it; nothing else changes but the LED bit, and the
  reception machine is not called.
\<close>

theorem character_accepted_only_awaiting_or_error:
  "(\<forall>s'. UART1IntHandler n e ulStatus s = Inr s' \<and> RTU_UART_calls s' \<noteq> RTU_UART_calls s \<longrightarrow>
        Modbus_OSL_MainState s = MODBUS_OSL_WAITREPLY \<or> Modbus_OSL_MainState s = MODBUS_OSL_ERROR)
   \<and> ((Modbus_OSL_MainState s = MODBUS_OSL_WAITREPLY \<or> Modbus_OSL_MainState s = MODBUS_OSL_ERROR)
        \<and> ulStatus \<noteq> UART_INT_PE e \<and> Modbus_OSL_Mode s = MODBUS_OSL_MODE_RTU \<longrightarrow>
        (\<exists>s'. UART1IntHandler n e ulStatus s = Inr s'
           \<and> RTU_UART_calls s' = Suc (RTU_UART_calls s)
           \<and> s' = (Modbus_OSL_RTU_UART e (s\<lparr>GPIO_PORTF_DATA_R := GPIO_PORTF_DATA_R s OR 1\<rparr>))
                  \<lparr>RTU_UART_calls := Suc (RTU_UART_calls s),
                   GPIO_PORTF_DATA_R :=
                     GPIO_PORTF_DATA_R
                       (Modbus_OSL_RTU_UART e (s\<lparr>GPIO_PORTF_DATA_R := GPIO_PORTF_DATA_R s OR 1\<rparr>))
                     AND NOT 1\<rparr>))
   \<and> (Modbus_OSL_MainState s = MODBUS_OSL_ERROR \<longrightarrow> Modbus_OSL_Reception_Complete s = s)
   \<and> (Modbus_OSL_MainState s \<noteq> MODBUS_OSL_WAITREPLY \<and> Modbus_OSL_MainState s \<noteq> MODBUS_OSL_ERROR \<longrightarrow>
        UART1IntHandler n e ulStatus s =
          Inr (s\<lparr>GPIO_PORTF_DATA_R := (GPIO_PORTF_DATA_R s OR 1) AND NOT 1,
                 UART1_discarded := Suc (UART1_discarded s)\<rparr>))"
proof (intro conjI allI impI)
  fix s'
  assume a: "UART1IntHandler n e ulStatus s = Inr s' \<and> RTU_UART_calls s' \<noteq> RTU_UART_calls s"
  show "Modbus_OSL_MainState s = MODBUS_OSL_WAITREPLY \<or> Modbus_OSL_MainState s = MODBUS_OSL_ERROR"
  proof (rule ccontr)
    assume "\<not> (Modbus_OSL_MainState s = MODBUS_OSL_WAITREPLY
      \<or> Modbus_OSL_MainState s = MODBUS_OSL_ERROR)"
    then have "UART1IntHandler n e ulStatus s =
          Inr (s\<lparr>GPIO_PORTF_DATA_R := (GPIO_PORTF_DATA_R s OR 1) AND NOT 1,
                 UART1_discarded := Suc (UART1_discarded s)\<rparr>)"
      by (simp add: UART1IntHandler_def Let_def UARTCharGetNonBlocking_def)
    with a show False by auto
  qed
next
  assume a: "(Modbus_OSL_MainState s = MODBUS_OSL_WAITREPLY \<or> Modbus_OSL_MainState s = MODBUS_OSL_ERROR)
        \<and> ulStatus \<noteq> UART_INT_PE e \<and> Modbus_OSL_Mode s = MODBUS_OSL_MODE_RTU"
  then have "UART_INT_PE e \<noteq> ulStatus" by auto
  with a show "\<exists>s'. UART1IntHandler n e ulStatus s = Inr s'
           \<and> RTU_UART_calls s' = Suc (RTU_UART_calls s)
           \<and> s' = (Modbus_OSL_RTU_UART e (s\<lparr>GPIO_PORTF_DATA_R := GPIO_PORTF_DATA_R s OR 1\<rparr>))
                  \<lparr>RTU_UART_calls := Suc (RTU_UART_calls s),
                   GPIO_PORTF_DATA_R :=
                     GPIO_PORTF_DATA_R
                       (Modbus_OSL_RTU_UART e (s\<lparr>GPIO_PORTF_DATA_R := GPIO_PORTF_DATA_R s OR 1\<rparr>))
                     AND NOT 1\<rparr>"
    by (auto simp: UART1IntHandler_def Let_def call_Modbus_OSL_RTU_UART_def)
next
  assume "Modbus_OSL_MainState s = MODBUS_OSL_ERROR"
  then show "Modbus_OSL_Reception_Complete s = s"
    by (simp add: Modbus_OSL_Reception_Complete_def)
next
  assume "Modbus_OSL_MainState s \<noteq> MODBUS_OSL_WAITREPLY \<and> Modbus_OSL_MainState s \<noteq> MODBUS_OSL_ERROR"
  then show "UART1IntHandler n e ulStatus s =
          Inr (s\<lparr>GPIO_PORTF_DATA_R := (GPIO_PORTF_DATA_R s OR 1) AND NOT 1,
                 UART1_discarded := Suc (UART1_discarded s)\<rparr>)"
    by (simp add: UART1IntHandler_def Let_def UARTCharGetNonBlocking_def)
qed

text \<open>
  A receive interrupt (status \<open>0x10\<close>) on the concrete configuration: dropped in \<open>IDLE\<close>,
  handed to the reception machine in \<open>ERROR\<close>.
\<close>

theorem character_accepted_only_awaiting_or_error_witness:
  "Modbus_OSL_MainState idle_state \<noteq> MODBUS_OSL_WAITREPLY
   \<and> Modbus_OSL_MainState idle_state \<noteq> MODBUS_OSL_ERROR
   \<and> UART1IntHandler 0 (bench_env Unsigned_char True) 0x10 idle_state =
       Inr (idle_state\<lparr>GPIO_PORTF_DATA_R := 0, UART1_discarded := 1\<rparr>)
   \<and> Modbus_OSL_MainState (idle_state\<lparr>Modbus_OSL_MainState := MODBUS_OSL_ERROR\<rparr>) = MODBUS_OSL_ERROR
   \<and> (\<exists>s'. UART1IntHandler 0 (bench_env Unsigned_char True) 0x10
               (idle_state\<lparr>Modbus_OSL_MainState := MODBUS_OSL_ERROR\<rparr>) = Inr s'
         \<and> RTU_UART_calls s' = 1 \<and> UART1_discarded s' = 0)"
proof -
  let ?e = "bench_env Unsigned_char True"
  let ?t = "idle_state\<lparr>Modbus_OSL_MainState := MODBUS_OSL_ERROR\<rparr>"
  have a: "Modbus_OSL_MainState idle_state \<noteq> MODBUS_OSL_WAITREPLY
      \<and> Modbus_OSL_MainState idle_state \<noteq> MODBUS_OSL_ERROR"
    by (simp add: idle_state_def)
  have b: "(Modbus_OSL_MainState ?t = MODBUS_OSL_WAITREPLY \<or> Modbus_OSL_MainState ?t = MODBUS_OSL_ERROR)
      \<and> 0x10 \<noteq> UART_INT_PE ?e \<and> Modbus_OSL_Mode ?t = MODBUS_OSL_MODE_RTU"
    by (simp add: idle_state_def bench_env_def)
  have "UART1IntHandler 0 ?e 0x10 idle_state =
       Inr (idle_state\<lparr>GPIO_PORTF_DATA_R := 0, UART1_discarded := 1\<rparr>)"
    using character_accepted_only_awaiting_or_error [of 0 ?e "0x10" idle_state] a
    by (simp add: idle_state_def)
  moreover have "\<exists>s'. UART1IntHandler 0 ?e 0x10 ?t = Inr s'
         \<and> RTU_UART_calls s' = 1 \<and> UART1_discarded s' = 0"
    using character_accepted_only_awaiting_or_error [of 0 ?e "0x10" ?t] b
    by (simp add: idle_state_def bench_env_def Modbus_OSL_State_Set_def)
  ultimately show ?thesis using a by simp
qed

subsection \<open>The frame-complete flag\<close>



subsection \<open>The timeout table\<close>

lemma unat_clock_product:
  fixes c :: u32
  assumes "5 * unat c < 2 ^ 32" and "unat k \<le> 5"
  shows "unat (c * k) = unat c * unat k"
proof -
  have "unat c * unat k \<le> unat c * 5" using assms(2) by (rule mult_le_mono2)
  with assms(1) have "unat c * unat k < 2 ^ 32" by linarith
  then have "unat c * unat k < 2 ^ LENGTH(32)" by simp
  then show ?thesis by (simp only: unat_mult_lem)
qed

lemma clock_scaled:
  fixes c :: u32
  assumes "5 * unat c < 2 ^ 32" and "unat k \<le> 5"
  shows "int (unat (c * k div d)) = \<lfloor>real (unat k) / real (unat d) * real (unat c)\<rfloor>"
proof -
  have "unat (c * k div d) = (unat c * unat k) div unat d"
    using unat_clock_product [OF assms] by (simp add: unat_div)
  also have "int \<dots> = \<lfloor>real (unat c * unat k) / real (unat d)\<rfloor>"
    by (simp only: floor_divide_of_nat_eq)
  finally show ?thesis by (simp add: mult.commute)
qed

text \<open>
  Claim C6. For a clock of \<open>c\<close> Hz whose fivefold fits 32 bits (any clock below 858 MHz),
  the two setters store, for the bauds 1200, 2400, 4800 and 9600 and for every other baud,
  the counts of 4, 3, 2, 1 and 0.5 seconds (response) and of 2.5, 1.5, 0.8, 0.4 and 0.2
  seconds (broadcast): the listed duration times \<open>c\<close>, in whole counts, and exactly that
  product when \<open>c\<close> is a multiple of 10. Neither setter touches the other's count.
\<close>

theorem timeout_table:
  assumes "5 * unat (SysCtlClockGet e) < 2 ^ 32"
  shows "int (unat (Modbus_OSL_Timeout_R (Modbus_OSL_Set_Timeout_R e Baudrate s))) =
      \<lfloor>(if Baudrate = 1200 then 4 else if Baudrate = 2400 then 3
         else if Baudrate = 4800 then 2 else if Baudrate = 9600 then 1 else 0.5)
        * real (unat (SysCtlClockGet e))\<rfloor>
    \<and> int (unat (Modbus_OSL_Timeout_B (Modbus_OSL_Set_Timeout_B e Baudrate s))) =
      \<lfloor>(if Baudrate = 1200 then 2.5 else if Baudrate = 2400 then 1.5
         else if Baudrate = 4800 then 0.8 else if Baudrate = 9600 then 0.4 else 0.2)
        * real (unat (SysCtlClockGet e))\<rfloor>
    \<and> (10 dvd unat (SysCtlClockGet e) \<longrightarrow>
         real (unat (Modbus_OSL_Timeout_R (Modbus_OSL_Set_Timeout_R e Baudrate s))) =
           (if Baudrate = 1200 then 4 else if Baudrate = 2400 then 3
            else if Baudrate = 4800 then 2 else if Baudrate = 9600 then 1 else 0.5)
           * real (unat (SysCtlClockGet e))
       \<and> real (unat (Modbus_OSL_Timeout_B (Modbus_OSL_Set_Timeout_B e Baudrate s))) =
           (if Baudrate = 1200 then 2.5 else if Baudrate = 2400 then 1.5
            else if Baudrate = 4800 then 0.8 else if Baudrate = 9600 then 0.4 else 0.2)
           * real (unat (SysCtlClockGet e)))
    \<and> Modbus_OSL_Timeout_B (Modbus_OSL_Set_Timeout_R e Baudrate s) = Modbus_OSL_Timeout_B s
    \<and> Modbus_OSL_Timeout_R (Modbus_OSL_Set_Timeout_B e Baudrate s) = Modbus_OSL_Timeout_R s"
proof -
  let ?c = "SysCtlClockGet e"
  have r: "int (unat (?c * k div d)) = \<lfloor>real (unat k) / real (unat d) * real (unat ?c)\<rfloor>"
    if "unat k \<le> 5" for k d :: u32
    using assms that by (rule clock_scaled)
  have R: "int (unat (?c * 4)) = \<lfloor>4 * real (unat ?c)\<rfloor>"
    "int (unat (?c * 3)) = \<lfloor>3 * real (unat ?c)\<rfloor>"
    "int (unat (?c * 2)) = \<lfloor>2 * real (unat ?c)\<rfloor>"
    "int (unat ?c) = \<lfloor>1 * real (unat ?c)\<rfloor>"
    "int (unat (?c div 2)) = \<lfloor>0.5 * real (unat ?c)\<rfloor>"
    using r [of 4 1] r [of 3 1] r [of 2 1] r [of 1 1] r [of 1 2] by simp_all
  have B: "int (unat (?c * 5 div 2)) = \<lfloor>2.5 * real (unat ?c)\<rfloor>"
    "int (unat (?c * 3 div 2)) = \<lfloor>1.5 * real (unat ?c)\<rfloor>"
    "int (unat (?c * 4 div 5)) = \<lfloor>0.8 * real (unat ?c)\<rfloor>"
    "int (unat (?c * 2 div 5)) = \<lfloor>0.4 * real (unat ?c)\<rfloor>"
    "int (unat (?c div 5)) = \<lfloor>0.2 * real (unat ?c)\<rfloor>"
    using r [of 5 2] r [of 3 2] r [of 4 5] r [of 2 5] r [of 1 5] by simp_all
  have "int (unat (Modbus_OSL_Timeout_R (Modbus_OSL_Set_Timeout_R e Baudrate s))) =
      \<lfloor>(if Baudrate = 1200 then 4 else if Baudrate = 2400 then 3
         else if Baudrate = 4800 then 2 else if Baudrate = 9600 then 1 else 0.5)
        * real (unat ?c)\<rfloor>"
    using R by (simp add: Modbus_OSL_Set_Timeout_R_def)
  moreover have "int (unat (Modbus_OSL_Timeout_B (Modbus_OSL_Set_Timeout_B e Baudrate s))) =
      \<lfloor>(if Baudrate = 1200 then 2.5 else if Baudrate = 2400 then 1.5
         else if Baudrate = 4800 then 0.8 else if Baudrate = 9600 then 0.4 else 0.2)
        * real (unat ?c)\<rfloor>"
    using B by (simp add: Modbus_OSL_Set_Timeout_B_def)
  moreover have "real (unat (Modbus_OSL_Timeout_R (Modbus_OSL_Set_Timeout_R e Baudrate s))) =
           (if Baudrate = 1200 then 4 else if Baudrate = 2400 then 3
            else if Baudrate = 4800 then 2 else if Baudrate = 9600 then 1 else 0.5)
           * real (unat ?c)
       \<and> real (unat (Modbus_OSL_Timeout_B (Modbus_OSL_Set_Timeout_B e Baudrate s))) =
           (if Baudrate = 1200 then 2.5 else if Baudrate = 2400 then 1.5
            else if Baudrate = 4800 then 0.8 else if Baudrate = 9600 then 0.4 else 0.2)
           * real (unat ?c)"
    if "10 dvd unat ?c"
  proof -
    from that obtain m where m: "unat ?c = 10 * m" by (auto simp: dvd_def)
    have u: "unat (?c * k div d) = (unat ?c * unat k) div unat d" if "unat k \<le> 5" for k d :: u32
      using unat_clock_product [OF assms that] by (simp add: unat_div)
    have "unat (?c * 4) = 40 * m" "unat (?c * 3) = 30 * m" "unat (?c * 2) = 20 * m"
      "unat (?c div 2) = 5 * m" "unat (?c * 5 div 2) = 25 * m" "unat (?c * 3 div 2) = 15 * m"
      "unat (?c * 4 div 5) = 8 * m" "unat (?c * 2 div 5) = 4 * m" "unat (?c div 5) = 2 * m"
      using u [of 4 1] u [of 3 1] u [of 2 1] u [of 1 2] u [of 5 2] u [of 3 2] u [of 4 5]
        u [of 2 5] u [of 1 5]
      by (simp_all add: m)
    then have "real (unat (?c * 4)) = 40 * real m" "real (unat (?c * 3)) = 30 * real m"
      "real (unat (?c * 2)) = 20 * real m" "real (unat ?c) = 10 * real m"
      "real (unat (?c div 2)) = 5 * real m" "real (unat (?c * 5 div 2)) = 25 * real m"
      "real (unat (?c * 3 div 2)) = 15 * real m" "real (unat (?c * 4 div 5)) = 8 * real m"
      "real (unat (?c * 2 div 5)) = 4 * real m" "real (unat (?c div 5)) = 2 * real m"
      by (simp_all only: m of_nat_mult of_nat_numeral)
    then show ?thesis
      by (simp add: Modbus_OSL_Set_Timeout_R_def Modbus_OSL_Set_Timeout_B_def)
  qed
  ultimately show ?thesis
    by (simp add: Modbus_OSL_Set_Timeout_R_def Modbus_OSL_Set_Timeout_B_def)
qed

text \<open>
  On the 8 MHz clock of the concrete environment: 32, 24, 16, 8 and 4 million counts for
  the response timeout; 20, 12, 6.4, 3.2 and 1.6 million counts for the broadcast delay.
\<close>

theorem timeout_table_witness:
  "5 * unat (SysCtlClockGet (bench_env Unsigned_char True)) < 2 ^ 32
   \<and> map (\<lambda>b. uint (Modbus_OSL_Timeout_R
               (Modbus_OSL_Set_Timeout_R (bench_env Unsigned_char True) b idle_state)))
       [1200, 2400, 4800, 9600, 19200] = [32000000, 24000000, 16000000, 8000000, 4000000]
   \<and> map (\<lambda>b. uint (Modbus_OSL_Timeout_B
               (Modbus_OSL_Set_Timeout_B (bench_env Unsigned_char True) b idle_state)))
       [1200, 2400, 4800, 9600, 19200] = [20000000, 12000000, 6400000, 3200000, 1600000]
   \<and> 10 dvd unat (SysCtlClockGet (bench_env Unsigned_char True))
   \<and> real (unat (Modbus_OSL_Timeout_B
               (Modbus_OSL_Set_Timeout_B (bench_env Unsigned_char True) 1200 idle_state))) =
       2.5 * 8000000"
proof -
  have c: "unat (SysCtlClockGet (bench_env Unsigned_char True)) = 8000000"
    by (simp add: bench_env_def)
  then have h: "5 * unat (SysCtlClockGet (bench_env Unsigned_char True)) < 2 ^ 32" by simp
  note t = timeout_table [OF h, of _ idle_state, unfolded c]
  have "int (unat (Modbus_OSL_Timeout_R
               (Modbus_OSL_Set_Timeout_R (bench_env Unsigned_char True) 1200 idle_state))) = 32000000"
       "int (unat (Modbus_OSL_Timeout_R
               (Modbus_OSL_Set_Timeout_R (bench_env Unsigned_char True) 2400 idle_state))) = 24000000"
       "int (unat (Modbus_OSL_Timeout_R
               (Modbus_OSL_Set_Timeout_R (bench_env Unsigned_char True) 4800 idle_state))) = 16000000"
       "int (unat (Modbus_OSL_Timeout_R
               (Modbus_OSL_Set_Timeout_R (bench_env Unsigned_char True) 9600 idle_state))) = 8000000"
       "int (unat (Modbus_OSL_Timeout_R
               (Modbus_OSL_Set_Timeout_R (bench_env Unsigned_char True) 19200 idle_state))) = 4000000"
    using t [of 1200] t [of 2400] t [of 4800] t [of 9600] t [of 19200] by simp_all
  moreover have "int (unat (Modbus_OSL_Timeout_B
               (Modbus_OSL_Set_Timeout_B (bench_env Unsigned_char True) 1200 idle_state))) = 20000000"
       "int (unat (Modbus_OSL_Timeout_B
               (Modbus_OSL_Set_Timeout_B (bench_env Unsigned_char True) 2400 idle_state))) = 12000000"
       "int (unat (Modbus_OSL_Timeout_B
               (Modbus_OSL_Set_Timeout_B (bench_env Unsigned_char True) 4800 idle_state))) = 6400000"
       "int (unat (Modbus_OSL_Timeout_B
               (Modbus_OSL_Set_Timeout_B (bench_env Unsigned_char True) 9600 idle_state))) = 3200000"
       "int (unat (Modbus_OSL_Timeout_B
               (Modbus_OSL_Set_Timeout_B (bench_env Unsigned_char True) 19200 idle_state))) = 1600000"
    using t [of 1200] t [of 2400] t [of 4800] t [of 9600] t [of 19200] by simp_all
  moreover have d: "10 dvd unat (SysCtlClockGet (bench_env Unsigned_char True))"
    unfolding c by simp
  moreover have "real (unat (Modbus_OSL_Timeout_B
               (Modbus_OSL_Set_Timeout_B (bench_env Unsigned_char True) 1200 idle_state))) =
       2.5 * 8000000"
    using timeout_table [OF h, of 1200 idle_state] d unfolding c by simp
  ultimately show ?thesis using h by simp
qed

subsection \<open>The fatal trap on a stray timer expiry\<close>

text \<open>
  Claim C7, as amended. An expiry of timer 2 in a state other than \<open>WAITREPLY\<close> and \<open>DELAY\<close>
  calls \<open>Modbus_Fatal_Error(110)\<close>, which never returns: however many iterations of its
  loop are observed, the call is still spinning. The state it spins in is the state in which
  the expiry was delivered, so nothing is written to the serial line, LED1, the timers or
  the application; the code 110 exists only as the unused argument of the spinning call.
\<close>

theorem stray_timer_expiry_halts:
  assumes "Modbus_OSL_MainState s \<noteq> MODBUS_OSL_WAITREPLY"
    and "Modbus_OSL_MainState s \<noteq> MODBUS_OSL_DELAY"
  shows "Modbus_OSL_Timeouts n s = Inl (Spinning 110 s)
    \<and> (\<forall>s'. Modbus_OSL_Timeouts n s \<noteq> Inr s')
    \<and> Modbus_OSL_Timeouts n s = Modbus_Fatal_Error n 110 s"
proof -
  have "Modbus_OSL_Timeouts n s = Modbus_Fatal_Error n 110 s"
    using assms by (cases "Modbus_OSL_MainState s") (simp_all add: Modbus_OSL_Timeouts_def)
  then show ?thesis by (simp add: Fatal_Error_spins)
qed

theorem stray_timer_expiry_halts_witness:
  "Modbus_OSL_MainState idle_state \<noteq> MODBUS_OSL_WAITREPLY
   \<and> Modbus_OSL_MainState idle_state \<noteq> MODBUS_OSL_DELAY
   \<and> Modbus_OSL_Timeouts 1000 idle_state = Inl (Spinning 110 idle_state)"
proof -
  have a: "Modbus_OSL_MainState idle_state \<noteq> MODBUS_OSL_WAITREPLY"
    and b: "Modbus_OSL_MainState idle_state \<noteq> MODBUS_OSL_DELAY"
    by (simp_all add: idle_state_def)
  from stray_timer_expiry_halts [OF a b, of 1000] a b show ?thesis by simp
qed

text \<open>
  The claim as it stands says that the trap reports an identifying code on a channel an
  operator can see. On the concrete idle state the channels of the halted machine are those
  of the state before the expiry, and they are the same for the code 110 of the timer trap
  and the code 100 of the UART trap: no channel carries the code.
\<close>

theorem stray_timer_expiry_silent_counterexample:
  "Modbus_OSL_MainState idle_state = MODBUS_OSL_IDLE
   \<and> halted_channels (Modbus_OSL_Timeouts 1000 idle_state) = operator_channels idle_state
   \<and> halted_channels (Modbus_Fatal_Error 1000 110 idle_state) =
       halted_channels (Modbus_Fatal_Error 1000 100 idle_state)"
  by (simp add: Fatal_Error_spins halted_channels_def Modbus_OSL_Timeouts_def idle_state_def)

subsection \<open>A reply from another slave\<close>

text \<open>
  Claim C8. In RTU mode, with the processing flag raised and character 0 of the message
  different from the expected slave, \<open>Modbus_OSL_Receive_CallBack\<close> returns 0 and changes
  nothing but the flag, which it clears: the state and its history, timer 2, the frame mark
  and what the application has received are as before. In \<open>WAITREPLY\<close> the poll therefore
  returns 1 with only the flag cleared and calls no application function; further polls
  change nothing; and the expiry of timer 2 is what writes \<open>ERROR\<close>.
\<close>

theorem wrong_responder_is_ignored:
  assumes "Modbus_OSL_Processing_Flag s \<noteq> 0"
    and "Modbus_OSL_Mode s = MODBUS_OSL_MODE_RTU"
    and "Modbus_OSL_RTU_Char_Get e 0 \<noteq> Modbus_OSL_Expected_Slave s"
  shows "Modbus_OSL_Receive_CallBack e s = (0, s\<lparr>Modbus_OSL_Processing_Flag := 0\<rparr>)
    \<and> (Modbus_OSL_MainState s = MODBUS_OSL_WAITREPLY \<longrightarrow>
         Modbus_OSL_Serial_Comm e a s = Some (1, s\<lparr>Modbus_OSL_Processing_Flag := 0\<rparr>)
       \<and> Modbus_OSL_Serial_Comm e a (s\<lparr>Modbus_OSL_Processing_Flag := 0\<rparr>) =
           Some (1, s\<lparr>Modbus_OSL_Processing_Flag := 0\<rparr>)
       \<and> Modbus_OSL_Timeouts n (s\<lparr>Modbus_OSL_Processing_Flag := 0\<rparr>) =
           Inr (s\<lparr>Modbus_OSL_Processing_Flag := 0, Modbus_OSL_MainState := MODBUS_OSL_ERROR,
                  MainState_history := MainState_history s @ [MODBUS_OSL_ERROR]\<rparr>))"
proof -
  have cb: "Modbus_OSL_Receive_CallBack e s = (0, s\<lparr>Modbus_OSL_Processing_Flag := 0\<rparr>)"
    using assms
    by (simp add: Modbus_OSL_Receive_CallBack_def Modbus_OSL_Processing_Msg_def Let_def)
  have again: "Modbus_OSL_Receive_CallBack e (s\<lparr>Modbus_OSL_Processing_Flag := 0\<rparr>) =
      (0, s\<lparr>Modbus_OSL_Processing_Flag := 0\<rparr>)"
    by (rule Receive_CallBack_no_flag) simp
  show ?thesis
    using cb again
    by (simp add: Modbus_OSL_Serial_Comm_def Modbus_OSL_Timeouts_def Modbus_OSL_MainState_Set_def)
qed

text \<open>
  The concrete message comes from slave 5 while slave 7 is expected: timer 2 keeps running
  and the state stays \<open>WAITREPLY\<close>.
\<close>

theorem wrong_responder_is_ignored_witness:
  "Modbus_OSL_Processing_Flag (awaiting_state\<lparr>Modbus_OSL_Expected_Slave := 7\<rparr>) \<noteq> 0
   \<and> Modbus_OSL_Mode (awaiting_state\<lparr>Modbus_OSL_Expected_Slave := 7\<rparr>) = MODBUS_OSL_MODE_RTU
   \<and> Modbus_OSL_RTU_Char_Get (bench_env Unsigned_char True) 0 \<noteq>
       Modbus_OSL_Expected_Slave (awaiting_state\<lparr>Modbus_OSL_Expected_Slave := 7\<rparr>)
   \<and> Modbus_OSL_MainState (awaiting_state\<lparr>Modbus_OSL_Expected_Slave := 7\<rparr>) = MODBUS_OSL_WAITREPLY
   \<and> Modbus_OSL_Serial_Comm (bench_env Unsigned_char True) bench_app
        (awaiting_state\<lparr>Modbus_OSL_Expected_Slave := 7\<rparr>) =
       Some (1, awaiting_state\<lparr>Modbus_OSL_Expected_Slave := 7, Modbus_OSL_Processing_Flag := 0\<rparr>)
   \<and> TIMER2_enabled (awaiting_state\<lparr>Modbus_OSL_Expected_Slave := 7, Modbus_OSL_Processing_Flag := 0\<rparr>)"
proof -
  let ?e = "bench_env Unsigned_char True"
  let ?w = "awaiting_state\<lparr>Modbus_OSL_Expected_Slave := 7\<rparr>"
  have a: "Modbus_OSL_Processing_Flag ?w \<noteq> 0" "Modbus_OSL_Mode ?w = MODBUS_OSL_MODE_RTU"
    "Modbus_OSL_RTU_Char_Get ?e 0 \<noteq> Modbus_OSL_Expected_Slave ?w"
    by (simp_all add: awaiting_state_def idle_state_def bench_env_def)
  have w: "Modbus_OSL_MainState ?w = MODBUS_OSL_WAITREPLY"
    "TIMER2_enabled (awaiting_state\<lparr>Modbus_OSL_Expected_Slave := 7, Modbus_OSL_Processing_Flag := 0\<rparr>)"
    by (simp_all add: awaiting_state_def)
  from wrong_responder_is_ignored [OF a, of bench_app 0] a w show ?thesis by simp
qed

subsection \<open>The length of the mounted frame\<close>

text \<open>
  Claim C9. In RTU mode, mounting the frame for a PDU of length \<open>L_pdu\<close> stores \<open>L_pdu + 3\<close>
  as the frame length, computed in eight unsigned bits: its value is
  \<open>(L_pdu + 3) mod 256\<close>. The stored length is in place when the transmit loop is entered,
  it is the length \<open>Modbus_OSL_Output\<close> leaves behind whenever it returns, and
  \<open>Modbus_OSL_Output\<close> does return unless plain \<^verbatim>\<open>char\<close> is signed and the stored length is
  above 127.
\<close>

theorem mounted_frame_length:
  assumes "Modbus_OSL_Mode s = MODBUS_OSL_MODE_RTU"
  shows "Modbus_OSL_L_Req_ADU (Modbus_OSL_Output_mount e mb_req_pdu Slave L_pdu s) = L_pdu + 3
    \<and> unat (Modbus_OSL_L_Req_ADU (Modbus_OSL_Output_mount e mb_req_pdu Slave L_pdu s)) =
        (unat L_pdu + 3) mod 256
    \<and> (\<forall>s'. Modbus_OSL_Output e mb_req_pdu Slave L_pdu s = Some s' \<longrightarrow>
          Modbus_OSL_L_Req_ADU s' = L_pdu + 3)
    \<and> ((plain_char e = Signed_char \<longrightarrow> unat (L_pdu + 3) \<le> 127) \<longrightarrow>
          (\<exists>s'. Modbus_OSL_Output e mb_req_pdu Slave L_pdu s = Some s'))"
proof -
  let ?m = "Modbus_OSL_Output_mount e mb_req_pdu Slave L_pdu s"
  have len: "Modbus_OSL_L_Req_ADU ?m = L_pdu + 3"
    using assms by (simp add: Modbus_OSL_Output_mount_def Modbus_OSL_State_Set_def)
  have val: "unat (L_pdu + 3) = (unat L_pdu + 3) mod 256"
    by (simp add: unat_word_ariths)
  have ret: "Modbus_OSL_L_Req_ADU s' = L_pdu + 3"
    if "Modbus_OSL_Output e mb_req_pdu Slave L_pdu s = Some s'" for s'
  proof (cases "plain_char e = Signed_char \<and> 127 < unat (Modbus_OSL_L_Req_ADU ?m)")
    case True
    then have "Modbus_OSL_Output e mb_req_pdu Slave L_pdu s = None"
      by (intro Output_stuck) simp_all
    with that show ?thesis by simp
  next
    case False
    then have "plain_char e = Signed_char \<longrightarrow> unat (Modbus_OSL_L_Req_ADU ?m) \<le> 127"
      by auto
    from Output_returns [OF this] that len show ?thesis
      by (auto simp: Modbus_OSL_BroadCast_Timeout_def Modbus_OSL_Response_Timeout_def
          Modbus_OSL_MainState_Set_def split: if_splits)
  qed
  have ex: "\<exists>s'. Modbus_OSL_Output e mb_req_pdu Slave L_pdu s = Some s'"
    if "plain_char e = Signed_char \<longrightarrow> unat (L_pdu + 3) \<le> 127"
  proof -
    from that len have "plain_char e = Signed_char \<longrightarrow> unat (Modbus_OSL_L_Req_ADU ?m) \<le> 127"
      by simp
    from Output_returns [OF this] show ?thesis by blast
  qed
  from len val ret ex show ?thesis by simp
qed

text \<open>
  A PDU of five bytes gives a frame of eight; a PDU of 254 bytes gives the stored length 1.
\<close>

theorem mounted_frame_length_witness:
  "Modbus_OSL_Mode idle_state = MODBUS_OSL_MODE_RTU
   \<and> Modbus_OSL_L_Req_ADU
       (Modbus_OSL_Output_mount (bench_env Unsigned_char True) [3, 0, 0, 0, 1] 5 5 idle_state) = 8
   \<and> unat (Modbus_OSL_L_Req_ADU
       (Modbus_OSL_Output_mount (bench_env Unsigned_char True) (replicate 254 0) 5 254 idle_state)) = 1
   \<and> (\<exists>s'. Modbus_OSL_Output (bench_env Unsigned_char True) [3, 0, 0, 0, 1] 5 5 idle_state = Some s'
         \<and> Modbus_OSL_L_Req_ADU s' = 8)"
proof -
  have m: "Modbus_OSL_Mode idle_state = MODBUS_OSL_MODE_RTU" by (simp add: idle_state_def)
  have u: "plain_char (bench_env Unsigned_char True) = Unsigned_char" by (simp add: bench_env_def)
  note a = mounted_frame_length [OF m, of "bench_env Unsigned_char True" "[3, 0, 0, 0, 1]" 5 5]
  note b = mounted_frame_length [OF m, of "bench_env Unsigned_char True" "replicate 254 0" 5 254]
  from a u obtain s' where
    "Modbus_OSL_Output (bench_env Unsigned_char True) [3, 0, 0, 0, 1] 5 5 idle_state = Some s'"
    by auto
  moreover from a this have "Modbus_OSL_L_Req_ADU s' = 8" by simp
  moreover from a have "Modbus_OSL_L_Req_ADU
       (Modbus_OSL_Output_mount (bench_env Unsigned_char True) [3, 0, 0, 0, 1] 5 5 idle_state) = 8"
    by simp
  moreover from b have "unat (Modbus_OSL_L_Req_ADU
       (Modbus_OSL_Output_mount (bench_env Unsigned_char True) (replicate 254 0) 5 254 idle_state)) = 1"
    by simp
  ultimately show ?thesis using m by blast
qed

subsection \<open>Termination of the transmit loop\<close>

text \<open>
  Claim C10, as amended. Whether \<open>Modbus_OSL_Send\<close> returns depends on the compiler's
  choice for plain \<^verbatim>\<open>char\<close>, the type of the loop counter. With an unsigned plain
  \<^verbatim>\<open>char\<close>, the default of the ARM target, it returns for every length from 0 to 255.
  With a signed plain \<^verbatim>\<open>char\<close> it returns if and only if the length is at most 127, and
  for every length from 128 to 255 it never returns. Wherever it returns it has sent
  exactly the first \<open>L_adu\<close> bytes of the buffer, in order, and has switched LED1 on and off
  again.
\<close>

theorem Send_returns_iff_char_kind:
  "((\<exists>s'. Modbus_OSL_Send k mb_req_adu L_adu s = Some s') \<longleftrightarrow>
      (k = Signed_char \<longrightarrow> unat L_adu \<le> 127))
   \<and> (if k = Signed_char \<and> 127 < unat L_adu
      then Modbus_OSL_Send k mb_req_adu L_adu s = None
      else Modbus_OSL_Send k mb_req_adu L_adu s =
             Some (s\<lparr>GPIO_PORTF_DATA_R := (GPIO_PORTF_DATA_R s OR 1) AND NOT 1,
                     UART1_sent := UART1_sent s @
                       map (\<lambda>x. mb_req_adu (int x)) [0..<unat L_adu]\<rparr>))"
proof (cases "k = Signed_char \<and> 127 < unat L_adu")
  case True
  then have "Modbus_OSL_Send k mb_req_adu L_adu s = None"
    by (simp add: Send_signed_long_never_returns)
  with True show ?thesis by simp
next
  case False
  then have ok: "k = Signed_char \<longrightarrow> unat L_adu \<le> 127" by auto
  then have "Modbus_OSL_Send k mb_req_adu L_adu s =
      Some (s\<lparr>GPIO_PORTF_DATA_R := (GPIO_PORTF_DATA_R s OR 1) AND NOT 1,
              UART1_sent := UART1_sent s @ map (\<lambda>x. mb_req_adu (int x)) [0..<unat L_adu]\<rparr>)"
    by (rule Send_returns)
  with False ok show ?thesis by auto
qed

text \<open>
  With a signed counter three bytes are sent and the call returns, and 128 bytes are never
  finished; with an unsigned counter a frame of 130 bytes is sent in full and the call
  returns.
\<close>

theorem Send_returns_iff_char_kind_witness:
  "unat (3 :: u8) \<le> 127
   \<and> UART1_sent (the (Modbus_OSL_Send Signed_char (\<lambda>k. of_int k + 16) 3 idle_state)) = [16, 17, 18]
   \<and> 127 < unat (128 :: u8)
   \<and> Modbus_OSL_Send Signed_char (\<lambda>k. of_int k + 16) 128 idle_state = None
   \<and> Modbus_OSL_Send Unsigned_char (\<lambda>k. of_int k + 16) 130 idle_state \<noteq> None
   \<and> length (UART1_sent (the (Modbus_OSL_Send Unsigned_char (\<lambda>k. of_int k + 16) 130 idle_state)))
       = 130"
proof -
  have a: "unat (3 :: u8) \<le> 127" "127 < unat (128 :: u8)" "unat (130 :: u8) = 130"
    by simp_all
  from Send_returns_iff_char_kind [of Signed_char "\<lambda>k. of_int k + 16" 3 idle_state] a
  have "UART1_sent (the (Modbus_OSL_Send Signed_char (\<lambda>k. of_int k + 16) 3 idle_state)) =
      [16, 17, 18]"
    by (simp add: idle_state_def upt_rec)
  moreover from Send_returns_iff_char_kind [of Signed_char "\<lambda>k. of_int k + 16" 128 idle_state] a
  have "Modbus_OSL_Send Signed_char (\<lambda>k. of_int k + 16) 128 idle_state = None"
    by simp
  moreover from Send_returns_iff_char_kind [of Unsigned_char "\<lambda>k. of_int k + 16" 130 idle_state]
  have "Modbus_OSL_Send Unsigned_char (\<lambda>k. of_int k + 16) 130 idle_state \<noteq> None
      \<and> length (UART1_sent (the (Modbus_OSL_Send Unsigned_char (\<lambda>k. of_int k + 16) 130 idle_state)))
       = 130"
    by (simp add: a(3) idle_state_def)
  ultimately show ?thesis using a by simp
qed

text \<open>
  The claim as it stands says that the call returns only for lengths up to 127. With the
  unsigned plain \<^verbatim>\<open>char\<close> of the ARM target a frame of 128 bytes, and one of 255, is sent
  in full and the call returns.
\<close>

theorem Send_unsigned_long_frame_counterexample:
  "127 < unat (128 :: u8)
   \<and> Modbus_OSL_Send Unsigned_char (\<lambda>k. of_int k) 128 idle_state \<noteq> None
   \<and> length (UART1_sent (the (Modbus_OSL_Send Unsigned_char (\<lambda>k. of_int k) 128 idle_state))) = 128
   \<and> length (UART1_sent (the (Modbus_OSL_Send Unsigned_char (\<lambda>k. of_int k) 255 idle_state))) = 255"
  by (simp add: Send_unsigned_returns idle_state_def)

end
